theory Spec2Isabelle
  imports Main
begin

section \<open>Python values and exceptions\<close>

text \<open>
  The module \<^verbatim>\<open>ultrasonics/database.py\<close> stores Python values in an sqlite database.
  Values are written with \<^verbatim>\<open>str()\<close> and read back with \<^verbatim>\<open>ast.literal_eval\<close>.
  The values modelled are \<^verbatim>\<open>None\<close>, booleans, integers, strings (sequences of code
  points below 256), lists and dictionaries (association lists in insertion order).
  Floats, tuples, sets and bytes are outside the model.
\<close>

datatype pyval =
    PNone
  | PBool bool
  | PInt int
  | PStr string
  | PList "pyval list"
  | PDict "(pyval \<times> pyval) list"

text \<open>
  Exceptions that can leave a function of the module. \<open>LiteralError\<close> stands for what
  \<^verbatim>\<open>ast.literal_eval\<close> raises (\<^verbatim>\<open>ValueError\<close>, \<^verbatim>\<open>SyntaxError\<close>, \<^verbatim>\<open>TypeError\<close>);
  none of them is an \<^verbatim>\<open>sqlite3.Error\<close>. An \<^verbatim>\<open>sqlite3.Error\<close> never leaves a function:
  every function catches it, logs, and falls off its end (returning \<^verbatim>\<open>None\<close>).
\<close>

datatype exn = IndexError | KeyError | OverflowError | LiteralError

datatype result = Returned pyval | Raised exn

subsection \<open>Equality of dictionary keys, dictionary access\<close>

fun num_of :: "pyval \<Rightarrow> int option" where
  "num_of (PBool b) = Some (if b then 1 else 0)"
| "num_of (PInt n) = Some n"
| "num_of _ = None"

text \<open>
  Python's \<^verbatim>\<open>==\<close> where at least one operand is \<^verbatim>\<open>None\<close>, a bool, an int or a str:
  booleans are the integers 0 and 1, everything else is equal to itself only.
\<close>

definition py_eq :: "pyval \<Rightarrow> pyval \<Rightarrow> bool" where
  "py_eq a b =
     (case (num_of a, num_of b) of
        (Some x, Some y) \<Rightarrow> x = y
      | (None, None) \<Rightarrow> a = b
      | _ \<Rightarrow> False)"

fun hashable :: "pyval \<Rightarrow> bool" where
  "hashable (PList _) = False"
| "hashable (PDict _) = False"
| "hashable _ = True"

text \<open>\<^verbatim>\<open>k in d\<close> and \<^verbatim>\<open>d[k]\<close> (\<open>None\<close> is the \<^verbatim>\<open>KeyError\<close>) and \<^verbatim>\<open>d[k] = v\<close>: an existing
  key keeps its place and its key object, a new key goes to the end.\<close>

fun dict_get :: "(pyval \<times> pyval) list \<Rightarrow> pyval \<Rightarrow> pyval option" where
  "dict_get [] k = None"
| "dict_get ((k', v') # d) k = (if py_eq k' k then Some v' else dict_get d k)"

fun dict_set :: "(pyval \<times> pyval) list \<Rightarrow> pyval \<Rightarrow> pyval \<Rightarrow> (pyval \<times> pyval) list" where
  "dict_set [] k v = [(k, v)]"
| "dict_set ((k', v') # d) k v =
     (if py_eq k' k then (k', v) # d else (k', v') # dict_set d k v)"

text \<open>\<^verbatim>\<open>x in xs\<close> for a list.\<close>

definition py_in :: "pyval \<Rightarrow> pyval list \<Rightarrow> bool" where
  "py_in x xs = (\<exists>y \<in> set xs. py_eq y x)"

section \<open>The codec: \<^verbatim>\<open>str()\<close> on write\<close>

subsection \<open>Integers in decimal\<close>

definition digit_char :: "nat \<Rightarrow> char" where
  "digit_char d = char_of (48 + d)"

fun show_nat :: "nat \<Rightarrow> string" where
  "show_nat n = (if n < 10 then [digit_char n] else show_nat (n div 10) @ [digit_char (n mod 10)])"

declare show_nat.simps [simp del]

definition show_int :: "int \<Rightarrow> string" where
  "show_int i = (if i < 0 then CHR ''-'' # show_nat (nat (- i)) else show_nat (nat i))"

subsection \<open>Strings\<close>

text \<open>
  \<^verbatim>\<open>repr\<close> of a str: single quotes, unless the string holds a single quote and no double
  quote; the quote and the backslash are escaped with a backslash; tab, newline and
  carriage return are \<^verbatim>\<open>\t\<close>, \<^verbatim>\<open>\n\<close>, \<^verbatim>\<open>\r\<close>; any other code point that is not printable
  (below 0x20, 0x7f to 0xa0, and 0xad) is \<^verbatim>\<open>\xNN\<close> in lower-case hexadecimal.
\<close>

definition hex_char :: "nat \<Rightarrow> char" where
  "hex_char d = (if d < 10 then char_of (48 + d) else char_of (87 + d))"

definition printable :: "char \<Rightarrow> bool" where
  "printable c =
     (let n = (of_char c :: nat)
      in (32 \<le> n \<and> n < 127) \<or> (160 < n \<and> n \<noteq> 173))"

definition quote_of :: "string \<Rightarrow> char" where
  "quote_of s = (if CHR 0x27 \<in> set s \<and> CHR 0x22 \<notin> set s then CHR 0x22 else CHR 0x27)"

definition esc_char :: "char \<Rightarrow> char \<Rightarrow> string" where
  "esc_char q c =
     (if c = q \<or> c = CHR 0x5C then [CHR 0x5C, c]
      else if c = CHR 0x09 then [CHR 0x5C, CHR ''t'']
      else if c = CHR 0x0A then [CHR 0x5C, CHR ''n'']
      else if c = CHR 0x0D then [CHR 0x5C, CHR ''r'']
      else if printable c then [c]
      else [CHR 0x5C, CHR ''x'', hex_char (of_char c div 16), hex_char (of_char c mod 16)])"

definition repr_str :: "string \<Rightarrow> string" where
  "repr_str s = (let q = quote_of s in q # concat (map (esc_char q) s) @ [q])"

subsection \<open>\<^verbatim>\<open>repr\<close> and \<^verbatim>\<open>str\<close>\<close>

function py_repr :: "pyval \<Rightarrow> string"
  and repr_items :: "pyval list \<Rightarrow> string"
  and repr_pairs :: "(pyval \<times> pyval) list \<Rightarrow> string"
where
  "py_repr PNone = ''None''"
| "py_repr (PBool b) = (if b then ''True'' else ''False'')"
| "py_repr (PInt i) = show_int i"
| "py_repr (PStr s) = repr_str s"
| "py_repr (PList xs) = ''['' @ repr_items xs @ '']''"
| "py_repr (PDict kvs) = ''{'' @ repr_pairs kvs @ ''}''"
| "repr_items [] = []"
| "repr_items [x] = py_repr x"
| "repr_items (x # y # ys) = py_repr x @ '', '' @ repr_items (y # ys)"
| "repr_pairs [] = []"
| "repr_pairs [(k, v)] = py_repr k @ '': '' @ py_repr v"
| "repr_pairs ((k, v) # p # ps) = py_repr k @ '': '' @ py_repr v @ '', '' @ repr_pairs (p # ps)"
  by pat_completeness auto
termination
  by (relation "measure (\<lambda>x. case x of
         Inl v \<Rightarrow> size v
       | Inr (Inl xs) \<Rightarrow> size_list size xs
       | Inr (Inr ps) \<Rightarrow> size_list (size_prod size size) ps)") auto

text \<open>\<^verbatim>\<open>str(x)\<close>: a str is itself (no quotes), anything else is its \<^verbatim>\<open>repr\<close>.\<close>

definition py_str :: "pyval \<Rightarrow> string" where
  "py_str v = (case v of PStr s \<Rightarrow> s | _ \<Rightarrow> py_repr v)"

section \<open>The codec: \<^verbatim>\<open>ast.literal_eval\<close> on read\<close>

definition is_digit :: "char \<Rightarrow> bool" where
  "is_digit c = (48 \<le> (of_char c :: nat) \<and> (of_char c :: nat) \<le> 57)"

definition digit_val :: "char \<Rightarrow> nat" where
  "digit_val c = of_char c - 48"

definition read_nat :: "string \<Rightarrow> nat" where
  "read_nat ds = foldl (\<lambda>a c. 10 * a + digit_val c) 0 ds"

definition parse_nat :: "string \<Rightarrow> (nat \<times> string) option" where
  "parse_nat s =
     (let ds = takeWhile is_digit s
      in if ds = [] \<or> (1 < length ds \<and> hd ds = CHR ''0'' \<and> (\<exists>d \<in> set ds. d \<noteq> CHR ''0''))
         then None
         else Some (read_nat ds, dropWhile is_digit s))"

definition hex_val :: "char \<Rightarrow> nat option" where
  "hex_val c =
     (let n = (of_char c :: nat)
      in if 48 \<le> n \<and> n \<le> 57 then Some (n - 48)
         else if 97 \<le> n \<and> n \<le> 102 then Some (n - 87)
         else if 65 \<le> n \<and> n \<le> 70 then Some (n - 55)
         else None)"

definition unescape :: "char \<Rightarrow> char option" where
  "unescape e =
     (if e = CHR 0x5C \<or> e = CHR 0x27 \<or> e = CHR 0x22 then Some e
      else if e = CHR ''t'' then Some (CHR 0x09)
      else if e = CHR ''n'' then Some (CHR 0x0A)
      else if e = CHR ''r'' then Some (CHR 0x0D)
      else None)"

fun parse_str_body :: "char \<Rightarrow> string \<Rightarrow> (string \<times> string) option" where
  "parse_str_body q [] = None"
| "parse_str_body q [c] = (if c = q then Some ([], []) else None)"
| "parse_str_body q (c # e # r) =
     (if c = q then Some ([], e # r)
      else if c = CHR 0x0A then None
      else if c \<noteq> CHR 0x5C then
        (case parse_str_body q (e # r) of
           None \<Rightarrow> None
         | Some (t, r') \<Rightarrow> Some (c # t, r'))
      else if e = CHR ''x'' then
        (case r of
           h1 # h2 # r1 \<Rightarrow>
             (case (hex_val h1, hex_val h2) of
                (Some a, Some b) \<Rightarrow>
                  (case parse_str_body q r1 of
                     None \<Rightarrow> None
                   | Some (t, r') \<Rightarrow> Some (char_of (16 * a + b) # t, r'))
              | _ \<Rightarrow> None)
         | _ \<Rightarrow> None)
      else
        (case unescape e of
           None \<Rightarrow> None
         | Some ch \<Rightarrow>
             (case parse_str_body q r of
                None \<Rightarrow> None
              | Some (t, r') \<Rightarrow> Some (ch # t, r'))))"

fun skip_ws :: "string \<Rightarrow> string" where
  "skip_ws [] = []"
| "skip_ws (c # r) = (if c = CHR '' '' then skip_ws r else c # r)"

fun strip_prefix :: "string \<Rightarrow> string \<Rightarrow> string option" where
  "strip_prefix [] s = Some s"
| "strip_prefix (p # ps) [] = None"
| "strip_prefix (p # ps) (c # s) = (if p = c then strip_prefix ps s else None)"

definition parse_keyword :: "string \<Rightarrow> (pyval \<times> string) option" where
  "parse_keyword s =
     (case strip_prefix ''None'' s of
        Some r \<Rightarrow> Some (PNone, r)
      | None \<Rightarrow>
          (case strip_prefix ''True'' s of
             Some r \<Rightarrow> Some (PBool True, r)
           | None \<Rightarrow>
               (case strip_prefix ''False'' s of
                  Some r \<Rightarrow> Some (PBool False, r)
                | None \<Rightarrow> None)))"

definition build_dict :: "(pyval \<times> pyval) list \<Rightarrow> (pyval \<times> pyval) list" where
  "build_dict ps = foldl (\<lambda>d (k, v). dict_set d k v) [] ps"

fun parse_value :: "nat \<Rightarrow> string \<Rightarrow> (pyval \<times> string) option"
  and parse_items :: "nat \<Rightarrow> string \<Rightarrow> (pyval list \<times> string) option"
  and parse_pairs :: "nat \<Rightarrow> string \<Rightarrow> ((pyval \<times> pyval) list \<times> string) option"
where
  "parse_value 0 s = None"
| "parse_value (Suc n) s =
     (case skip_ws s of
        [] \<Rightarrow> None
      | c # r \<Rightarrow>
          if c = CHR ''['' then
            (case skip_ws r of
               [] \<Rightarrow> None
             | d # r' \<Rightarrow>
                 if d = CHR '']'' then Some (PList [], r')
                 else (case parse_items n r of
                         None \<Rightarrow> None
                       | Some (xs, r'') \<Rightarrow> Some (PList xs, r'')))
          else if c = CHR ''{'' then
            (case skip_ws r of
               [] \<Rightarrow> None
             | d # r' \<Rightarrow>
                 if d = CHR ''}'' then Some (PDict [], r')
                 else (case parse_pairs n r of
                         None \<Rightarrow> None
                       | Some (ps, r'') \<Rightarrow>
                           if list_all (\<lambda>p. hashable (fst p)) ps
                           then Some (PDict (build_dict ps), r'')
                           else None))
          else if c = CHR 0x27 \<or> c = CHR 0x22 then
            (case parse_str_body c r of
               None \<Rightarrow> None
             | Some (t, r') \<Rightarrow> Some (PStr t, r'))
          else if c = CHR ''-'' then
            (case parse_nat r of
               None \<Rightarrow> None
             | Some (m, r') \<Rightarrow> Some (PInt (- int m), r'))
          else if is_digit c then
            (case parse_nat (c # r) of
               None \<Rightarrow> None
             | Some (m, r') \<Rightarrow> Some (PInt (int m), r'))
          else parse_keyword (c # r))"
| "parse_items 0 s = None"
| "parse_items (Suc n) s =
     (case parse_value n s of
        None \<Rightarrow> None
      | Some (v, r) \<Rightarrow>
          (case skip_ws r of
             [] \<Rightarrow> None
           | c # r' \<Rightarrow>
               if c = CHR '']'' then Some ([v], r')
               else if c = CHR '','' then
                 (case skip_ws r' of
                    [] \<Rightarrow> None
                  | d # r'' \<Rightarrow>
                      if d = CHR '']'' then Some ([v], r'')
                      else (case parse_items n r' of
                              None \<Rightarrow> None
                            | Some (vs, r3) \<Rightarrow> Some (v # vs, r3)))
               else None))"
| "parse_pairs 0 s = None"
| "parse_pairs (Suc n) s =
     (case parse_value n s of
        None \<Rightarrow> None
      | Some (k, r) \<Rightarrow>
          (case skip_ws r of
             [] \<Rightarrow> None
           | c # r' \<Rightarrow>
               if c \<noteq> CHR '':'' then None
               else
                 (case parse_value n r' of
                    None \<Rightarrow> None
                  | Some (v, r1) \<Rightarrow>
                      (case skip_ws r1 of
                         [] \<Rightarrow> None
                       | d # r2 \<Rightarrow>
                           if d = CHR ''}'' then Some ([(k, v)], r2)
                           else if d = CHR '','' then
                             (case skip_ws r2 of
                                [] \<Rightarrow> None
                              | e # r3 \<Rightarrow>
                                  if e = CHR ''}'' then Some ([(k, v)], r3)
                                  else (case parse_pairs n r2 of
                                          None \<Rightarrow> None
                                        | Some (ps, r4) \<Rightarrow> Some ((k, v) # ps, r4)))
                           else None))))"

fun literal_eval :: "pyval \<Rightarrow> exn + pyval" where
  "literal_eval (PStr s) =
     (case parse_value (Suc (length s)) s of
        None \<Rightarrow> Inl LiteralError
      | Some (v, r) \<Rightarrow> if skip_ws r = [] then Inr v else Inl LiteralError)"
| "literal_eval _ = Inl LiteralError"

text \<open>
  \<open>literal_eval\<close> above is the part of Python's literal grammar that \<^verbatim>\<open>str()\<close> produces for
  the modelled values, with blanks allowed before a value and before a bracket, comma or
  colon, and a trailing comma allowed in a list or dictionary. A text outside this part is
  refused here, also where Python reads it (a float, a tuple, a signed number written with
  a plus). The recursion is on fuel: \<open>literal_eval\<close> gives one more than the length of the
  text, which is shown below to be enough for every text that \<^verbatim>\<open>str()\<close> writes.
  The functions further down that read a stored text take the decoder as a parameter
  \<open>dec\<close>, so that what they do with a decoding error does not depend on this grammar.
\<close>

text \<open>Values that round-trip: dictionary keys are hashable and pairwise different.\<close>

function wf_val :: "pyval \<Rightarrow> bool"
  and wf_items :: "pyval list \<Rightarrow> bool"
  and wf_pairs :: "(pyval \<times> pyval) list \<Rightarrow> bool"
where
  "wf_val PNone = True"
| "wf_val (PBool b) = True"
| "wf_val (PInt i) = True"
| "wf_val (PStr s) = True"
| "wf_val (PList xs) = wf_items xs"
| "wf_val (PDict kvs) = wf_pairs kvs"
| "wf_items [] = True"
| "wf_items (x # xs) = (wf_val x \<and> wf_items xs)"
| "wf_pairs [] = True"
| "wf_pairs ((k, v) # ps) =
     (hashable k \<and> wf_val v \<and> list_all (\<lambda>p. \<not> py_eq k (fst p)) ps \<and> wf_pairs ps)"
  by pat_completeness auto
termination
  by (relation "measure (\<lambda>x. case x of
         Inl v \<Rightarrow> size v
       | Inr (Inl xs) \<Rightarrow> size_list size xs
       | Inr (Inr ps) \<Rightarrow> size_list (size_prod size size) ps)") auto

section \<open>The sqlite database\<close>

text \<open>
  A cell of a column declared \<^verbatim>\<open>TEXT\<close>: \<^verbatim>\<open>NULL\<close>, an integer or a text. A Python value is
  bound to a statement parameter as follows: \<^verbatim>\<open>None\<close> is \<^verbatim>\<open>NULL\<close>, a bool is the integer 0
  or 1, an int must fit 64 bits (\<^verbatim>\<open>OverflowError\<close> otherwise, which is not an
  \<^verbatim>\<open>sqlite3.Error\<close>), a str is a text, and a list or a dict is refused with an
  \<^verbatim>\<open>sqlite3.Error\<close>. A column of \<^verbatim>\<open>TEXT\<close> affinity keeps an integer as its decimal text.
\<close>

datatype sqlval = SNull | SInt int | SText string

fun of_sql :: "sqlval \<Rightarrow> pyval" where
  "of_sql SNull = PNone"
| "of_sql (SInt n) = PInt n"
| "of_sql (SText s) = PStr s"

datatype bound = Bound sqlval | Unsupported | TooLarge

fun bind :: "pyval \<Rightarrow> bound" where
  "bind PNone = Bound SNull"
| "bind (PBool b) = Bound (SInt (if b then 1 else 0))"
| "bind (PInt n) = (if - (2 ^ 63) \<le> n \<and> n < 2 ^ 63 then Bound (SInt n) else TooLarge)"
| "bind (PStr s) = Bound (SText s)"
| "bind (PList xs) = Unsupported"
| "bind (PDict kvs) = Unsupported"

fun text_affinity :: "sqlval \<Rightarrow> sqlval" where
  "text_affinity (SInt n) = SText (show_int n)"
| "text_affinity v = v"

text \<open>The comparison \<^verbatim>\<open>column = ?\<close> on a \<^verbatim>\<open>TEXT\<close> column: \<^verbatim>\<open>NULL\<close> equals nothing.\<close>

definition sql_eq :: "sqlval \<Rightarrow> sqlval \<Rightarrow> bool" where
  "sql_eq cell v = (cell \<noteq> SNull \<and> cell = text_affinity v)"

text \<open>
  The column \<^verbatim>\<open>plugins.version\<close> is declared \<^verbatim>\<open>FLOAT\<close>: sqlite keeps a text that looks like
  a number as a floating-point number there. Floating point is not modelled: the type
  \<open>'v\<close> of the cells of that column and the three operations on it are parameters.
\<close>

record 'v real_column =
  store_real :: "sqlval \<Rightarrow> 'v"
  str_real :: "'v \<Rightarrow> string"
  eq_real :: "'v \<Rightarrow> sqlval \<Rightarrow> bool"

text \<open>
  \<open>store_real\<close> is the cell kept for a bound value, \<open>str_real\<close> is \<^verbatim>\<open>str()\<close> of what a
  \<^verbatim>\<open>SELECT\<close> returns for the cell, \<open>eq_real\<close> is the comparison \<^verbatim>\<open>version = ?\<close>.
  One instance, used where a concrete cell is needed: it is exact on a text that is
  \<^verbatim>\<open>NULL\<close>, an integer literal of at most 15 digits (kept as the float of that value, which
  Python prints with \<^verbatim>\<open>.0\<close>), or a text with no digit in it (kept as it is); every other
  text is kept as it is, which is not what sqlite does for a text such as \<^verbatim>\<open>1.50\<close>.
\<close>

datatype vcell = VNull | VWhole int | VText string

definition whole_literal :: "string \<Rightarrow> bool" where
  "whole_literal s = (s \<noteq> [] \<and> length s \<le> 15 \<and> list_all is_digit s)"

fun store_whole :: "sqlval \<Rightarrow> vcell" where
  "store_whole SNull = VNull"
| "store_whole (SInt n) = VWhole n"
| "store_whole (SText s) = (if whole_literal s then VWhole (int (read_nat s)) else VText s)"

fun str_whole :: "vcell \<Rightarrow> string" where
  "str_whole VNull = ''None''"
| "str_whole (VWhole n) = show_int n @ ''.0''"
| "str_whole (VText s) = s"

definition eq_whole :: "vcell \<Rightarrow> sqlval \<Rightarrow> bool" where
  "eq_whole cell v = (cell \<noteq> VNull \<and> cell = store_whole v)"

definition whole_column :: "vcell real_column" where
  "whole_column = \<lparr>store_real = store_whole, str_real = str_whole, eq_real = eq_whole\<rparr>"

subsection \<open>The three tables and the log\<close>

record applet_row =
  a_id :: sqlval
  a_lastrun :: sqlval
  a_data :: sqlval

record 'v plugin_row =
  p_id :: int
  p_plugin :: sqlval
  p_version :: 'v
  p_settings :: sqlval

text \<open>
  A table that has not been created is \<open>None\<close>; a statement on it raises an
  \<^verbatim>\<open>sqlite3.Error\<close>. The rows of a table are in the order of their row ids, which is the
  order of a \<^verbatim>\<open>SELECT\<close> without \<^verbatim>\<open>ORDER BY\<close>. \<open>logs\<close> holds the messages given to the logger.
\<close>

record 'v store =
  ultrasonics :: "(sqlval \<times> sqlval) list option"
  plugins :: "'v plugin_row list option"
  applets :: "applet_row list option"
  logs :: "string list"

definition log_msg :: "string \<Rightarrow> 'v store \<Rightarrow> 'v store" where
  "log_msg m s = s\<lparr>logs := logs s @ [m]\<rparr>"

text \<open>How an \<^verbatim>\<open>execute\<close> or \<^verbatim>\<open>executemany\<close> ends: normally, with an \<^verbatim>\<open>sqlite3.Error\<close>,
  or with another exception.\<close>

datatype exec = Done | SqlError | Escaped exn

text \<open>\<^verbatim>\<open>executemany("INSERT INTO ultrasonics (key, value) VALUES(?, ?)", items)\<close>: the rows
  before the first item that cannot be bound are inserted.\<close>

fun insert_settings ::
  "(pyval \<times> pyval) list \<Rightarrow> (sqlval \<times> sqlval) list \<Rightarrow> (sqlval \<times> sqlval) list \<times> exec" where
  "insert_settings [] rows = (rows, Done)"
| "insert_settings ((k, v) # items) rows =
     (case bind k of
        Unsupported \<Rightarrow> (rows, SqlError)
      | TooLarge \<Rightarrow> (rows, Escaped OverflowError)
      | Bound k' \<Rightarrow>
          (case bind v of
             Unsupported \<Rightarrow> (rows, SqlError)
           | TooLarge \<Rightarrow> (rows, Escaped OverflowError)
           | Bound v' \<Rightarrow> insert_settings items (rows @ [(text_affinity k', text_affinity v')])))"

text \<open>\<^verbatim>\<open>executemany("UPDATE ultrasonics SET value = ? WHERE key = ?", settings)\<close>: the first
  component of each tuple is the value, the second the key.\<close>

fun update_settings ::
  "(pyval \<times> pyval) list \<Rightarrow> (sqlval \<times> sqlval) list \<Rightarrow> (sqlval \<times> sqlval) list \<times> exec" where
  "update_settings [] rows = (rows, Done)"
| "update_settings ((v, k) # items) rows =
     (case bind v of
        Unsupported \<Rightarrow> (rows, SqlError)
      | TooLarge \<Rightarrow> (rows, Escaped OverflowError)
      | Bound v' \<Rightarrow>
          (case bind k of
             Unsupported \<Rightarrow> (rows, SqlError)
           | TooLarge \<Rightarrow> (rows, Escaped OverflowError)
           | Bound k' \<Rightarrow>
               update_settings items
                 (map (\<lambda>r. if sql_eq (fst r) k' then (fst r, text_affinity v') else r) rows)))"

section \<open>General: \<^verbatim>\<open>new_install\<close> and \<^verbatim>\<open>connect\<close>\<close>

text \<open>
  Every function takes the store and returns the store with what it returns or raises.
  Leaving the \<^verbatim>\<open>with sqlite3.connect(...)\<close> block normally commits; leaving it with an
  exception rolls the open transaction back.
\<close>

definition new_install :: "bool \<Rightarrow> 'v store \<Rightarrow> 'v store \<times> result" where
  "new_install update s =
     (if update then
        (case ultrasonics s of
           None \<Rightarrow> (log_msg ''Error while updating database entry'' s, Returned PNone)
         | Some rows \<Rightarrow>
             (log_msg ''Welcome to ultrasonics!''
                (s\<lparr>ultrasonics := Some (map (\<lambda>r. if sql_eq (fst r) (SText ''new_install'')
                                                 then (fst r, text_affinity (SInt 0)) else r) rows)\<rparr>),
              Returned PNone))
      else
        (case ultrasonics s of
           None \<Rightarrow> (s, Returned PNone)
         | Some rows \<Rightarrow>
             (case filter (\<lambda>r. sql_eq (fst r) (SText ''new_install'')) rows of
                [] \<Rightarrow> (s, Raised IndexError)
              | r # _ \<Rightarrow> (s, Returned (PBool (py_eq (of_sql (snd r)) (PStr ''1'')))))))"

text \<open>A settings descriptor is a dict. The configurable ones are those whose
  \<^verbatim>\<open>"type"\<close> is \<^verbatim>\<open>"text"\<close>, \<^verbatim>\<open>"radio"\<close> or \<^verbatim>\<open>"select"\<close>.\<close>

type_synonym descriptor = "(pyval \<times> pyval) list"

definition configurable_types :: "pyval list" where
  "configurable_types = [PStr ''text'', PStr ''radio'', PStr ''select'']"

text \<open>\<^verbatim>\<open>[(item["name"], item["value"]) for item in global_settings if item["type"] in [...]]\<close>\<close>

fun settings_database :: "descriptor list \<Rightarrow> exn + (pyval \<times> pyval) list" where
  "settings_database [] = Inr []"
| "settings_database (item # items) =
     (case dict_get item (PStr ''type'') of
        None \<Rightarrow> Inl KeyError
      | Some t \<Rightarrow>
          if py_in t configurable_types then
            (case dict_get item (PStr ''name'') of
               None \<Rightarrow> Inl KeyError
             | Some n \<Rightarrow>
                 (case dict_get item (PStr ''value'') of
                    None \<Rightarrow> Inl KeyError
                  | Some v \<Rightarrow>
                      (case settings_database items of
                         Inl e \<Rightarrow> Inl e
                       | Inr rest \<Rightarrow> Inr ((n, v) # rest))))
          else settings_database items)"

text \<open>The end of \<^verbatim>\<open>connect\<close>: the two other tables, the commit, the version check.\<close>

definition create_tables ::
  "(pyval \<times> pyval) list \<Rightarrow> 'v store \<Rightarrow> (pyval \<times> pyval) list \<times> 'v store \<times> result" where
  "create_tables meta s =
     (let s1 = s\<lparr>plugins := Some (case plugins s of None \<Rightarrow> [] | Some rows \<Rightarrow> rows),
                 applets := Some (case applets s of None \<Rightarrow> [] | Some rows \<Rightarrow> rows)\<rparr>
      in case ultrasonics s1 of
           None \<Rightarrow> (meta, log_msg ''Error while creating tables'' s1, Returned PNone)
         | Some rows \<Rightarrow>
             (case filter (\<lambda>r. sql_eq (fst r) (SText ''version'')) rows of
                [] \<Rightarrow> (meta, s1, Raised IndexError)
              | r # _ \<Rightarrow>
                  (case dict_get meta (PStr ''version'') of
                     None \<Rightarrow> (meta, s1, Raised KeyError)
                   | Some v \<Rightarrow>
                       (meta,
                        if \<not> py_eq (of_sql (snd r)) v
                        then log_msg ''Installed ultrasonics version does not match database version! Proceed with caution.'' s1
                        else s1,
                        Returned PNone))))"

text \<open>
  \<^verbatim>\<open>connect\<close> reads two globals: the dict \<^verbatim>\<open>_ultrasonics\<close> of the module \<^verbatim>\<open>app\<close>, which it
  updates (\<open>meta\<close>, returned first), and the list \<^verbatim>\<open>global_settings\<close> (\<open>gs\<close>; its texts in
  the source hold code points above 255, so the list is a parameter here).
  \<^verbatim>\<open>CREATE TABLE\<close> is not part of a transaction; the inserts are, and are rolled back
  when an exception other than \<^verbatim>\<open>sqlite3.Error\<close> leaves the block.
\<close>

definition connect ::
  "(pyval \<times> pyval) list \<Rightarrow> descriptor list \<Rightarrow> 'v store \<Rightarrow> (pyval \<times> pyval) list \<times> 'v store \<times> result" where
  "connect meta gs s0 =
     (let s = log_msg ''Database connection successful'' s0
      in case new_install False s of
           (s1, Raised e) \<Rightarrow> (meta, s1, Raised e)
         | (s1, Returned r) \<Rightarrow>
             if py_eq r PNone then
               (let meta1 = dict_set meta (PStr ''new_install'') (PBool True)
                in case settings_database gs of
                     Inl e \<Rightarrow> (meta1, s1, Raised e)
                   | Inr gsd \<Rightarrow>
                       (let rows0 = (case ultrasonics s1 of None \<Rightarrow> [] | Some rows \<Rightarrow> rows)
                        in case insert_settings meta1 rows0 of
                             (rows1, SqlError) \<Rightarrow>
                               (meta1, log_msg ''Error while creating tables''
                                         (s1\<lparr>ultrasonics := Some rows1\<rparr>), Returned PNone)
                           | (rows1, Escaped e) \<Rightarrow> (meta1, s1\<lparr>ultrasonics := Some rows0\<rparr>, Raised e)
                           | (rows1, Done) \<Rightarrow>
                               (case insert_settings gsd rows1 of
                                  (rows2, SqlError) \<Rightarrow>
                                    (meta1, log_msg ''Error while creating tables''
                                              (s1\<lparr>ultrasonics := Some rows2\<rparr>), Returned PNone)
                                | (rows2, Escaped e) \<Rightarrow>
                                    (meta1, s1\<lparr>ultrasonics := Some rows0\<rparr>, Raised e)
                                | (rows2, Done) \<Rightarrow>
                                    create_tables meta1 (s1\<lparr>ultrasonics := Some rows2\<rparr>))))
             else create_tables meta s1)"

section \<open>Global settings\<close>

text \<open>\<^verbatim>\<open>[item["name"] for item in data if item["type"] in ["text", "radio", "select"]]\<close>\<close>

fun db_compatible_settings :: "descriptor list \<Rightarrow> exn + pyval list" where
  "db_compatible_settings [] = Inr []"
| "db_compatible_settings (item # items) =
     (case dict_get item (PStr ''type'') of
        None \<Rightarrow> Inl KeyError
      | Some t \<Rightarrow>
          if py_in t configurable_types then
            (case dict_get item (PStr ''name'') of
               None \<Rightarrow> Inl KeyError
             | Some n \<Rightarrow>
                 (case db_compatible_settings items of
                    Inl e \<Rightarrow> Inl e
                  | Inr rest \<Rightarrow> Inr (n # rest)))
          else db_compatible_settings items)"

text \<open>The body of the loop over the rows: every item that has a \<^verbatim>\<open>"name"\<close> equal to the
  key of the row gets the value of the row.\<close>

definition name_is :: "descriptor \<Rightarrow> pyval \<Rightarrow> bool" where
  "name_is item key =
     (case dict_get item (PStr ''name'') of None \<Rightarrow> False | Some n \<Rightarrow> py_eq n key)"

definition merge_row :: "pyval list \<Rightarrow> descriptor list \<Rightarrow> sqlval \<times> sqlval \<Rightarrow> descriptor list" where
  "merge_row names data row =
     (if py_in (of_sql (fst row)) names
      then map (\<lambda>item. if name_is item (of_sql (fst row))
                       then dict_set item (PStr ''value'') (of_sql (snd row)) else item) data
      else data)"

definition global_settings_load :: "bool \<Rightarrow> descriptor list \<Rightarrow> 'v store \<Rightarrow> 'v store \<times> result" where
  "global_settings_load raw gs s =
     (case ultrasonics s of
        None \<Rightarrow> (log_msg ''Error while loading applets from database'' s, Returned PNone)
      | Some rows \<Rightarrow>
          if raw then
            (s, Returned (PDict (foldl (\<lambda>d r. dict_set d (of_sql (fst r)) (of_sql (snd r))) [] rows)))
          else
            (case db_compatible_settings gs of
               Inl e \<Rightarrow> (s, Raised e)
             | Inr names \<Rightarrow> (s, Returned (PList (map PDict (foldl (merge_row names) gs rows))))))"

definition global_settings_save :: "(pyval \<times> pyval) list \<Rightarrow> 'v store \<Rightarrow> 'v store \<times> result" where
  "global_settings_save settings s =
     (case ultrasonics s of
        None \<Rightarrow> (log_msg ''Error while updating settings database'' s, Returned PNone)
      | Some rows \<Rightarrow>
          (case update_settings settings rows of
             (rows1, Done) \<Rightarrow>
               (log_msg ''Settings database updated'' (s\<lparr>ultrasonics := Some rows1\<rparr>), Returned PNone)
           | (rows1, SqlError) \<Rightarrow>
               (log_msg ''Error while updating settings database'' (s\<lparr>ultrasonics := Some rows1\<rparr>),
                Returned PNone)
           | (rows1, Escaped e) \<Rightarrow> (s, Raised e)))"

section \<open>Plugins\<close>

text \<open>The row id of an inserted row: one more than the largest in the table.\<close>

definition next_id :: "'v plugin_row list \<Rightarrow> int" where
  "next_id rows = (case rows of [] \<Rightarrow> 1 | r # rs \<Rightarrow> fold max (map p_id rs) (p_id r) + 1)"

definition plugin_match :: "'v real_column \<Rightarrow> string \<Rightarrow> string \<Rightarrow> 'v plugin_row \<Rightarrow> bool" where
  "plugin_match col name version r =
     (sql_eq (p_plugin r) (SText name) \<and> eq_real col (p_version r) (SText version))"

definition plugin_create_entry ::
  "'v real_column \<Rightarrow> pyval \<Rightarrow> pyval \<Rightarrow> 'v store \<Rightarrow> 'v store \<times> result" where
  "plugin_create_entry col name version s =
     (case plugins s of
        None \<Rightarrow> (log_msg ''Error while creating database entry'' s, Returned PNone)
      | Some rows \<Rightarrow>
          (log_msg ''Plugin database entry created''
             (s\<lparr>plugins := Some (rows @
                  [\<lparr>p_id = next_id rows,
                    p_plugin = text_affinity (SText (py_str name)),
                    p_version = store_real col (SText (py_str version)),
                    p_settings = SNull\<rparr>])\<rparr>),
           Returned PNone))"

definition plugin_update_entry ::
  "'v real_column \<Rightarrow> string \<Rightarrow> string \<Rightarrow> pyval \<Rightarrow> 'v store \<Rightarrow> 'v store \<times> result" where
  "plugin_update_entry col name version settings s =
     (case plugins s of
        None \<Rightarrow> (log_msg ''Error while updating database entry'' s, Returned PNone)
      | Some rows \<Rightarrow>
          (log_msg ''Plugin database entry updated''
             (s\<lparr>plugins := Some (map (\<lambda>r. if plugin_match col name version r
                                          then r\<lparr>p_settings := text_affinity (SText (py_str settings))\<rparr>
                                          else r) rows)\<rparr>),
           Returned PNone))"

definition plugin_entry_exists :: "'v real_column \<Rightarrow> string \<Rightarrow> 'v store \<Rightarrow> 'v store \<times> result" where
  "plugin_entry_exists col name s =
     (case plugins s of
        None \<Rightarrow> (log_msg ''Error while checking for plugin entry'' s, Returned PNone)
      | Some rows \<Rightarrow>
          (let found = filter (\<lambda>r. sql_eq (p_plugin r) (SText name)) rows
           in if length found > 0
              then (s, Returned (PList (map (\<lambda>r. PStr (str_real col (p_version r))) found)))
              else (s, Returned (PList [PBool False]))))"

definition plugin_load_entry ::
  "(pyval \<Rightarrow> exn + pyval) \<Rightarrow> 'v real_column \<Rightarrow> string \<Rightarrow> string \<Rightarrow> 'v store \<Rightarrow> 'v store \<times> result" where
  "plugin_load_entry dec col name version s =
     (case plugins s of
        None \<Rightarrow> (log_msg ''Error while loading plugin database entry'' s, Returned PNone)
      | Some rows \<Rightarrow>
          (case filter (plugin_match col name version) rows of
             [] \<Rightarrow> (s, Raised IndexError)
           | r # _ \<Rightarrow>
               (let settings = of_sql (p_settings r)
                in if \<not> py_eq settings PNone
                   then (case dec settings of
                           Inl e \<Rightarrow> (s, Raised e)
                         | Inr v \<Rightarrow> (s, Returned v))
                   else (s, Returned settings))))"

section \<open>Applets\<close>

text \<open>\<^verbatim>\<open>REPLACE INTO applets(id, data) VALUES(?,?)\<close>: a row with the same primary key is
  deleted, then the new row is inserted; the column \<^verbatim>\<open>lastrun\<close>, which the statement does
  not name, gets its default \<^verbatim>\<open>NULL\<close>.\<close>

definition sql_replace :: "sqlval \<Rightarrow> sqlval \<Rightarrow> applet_row list \<Rightarrow> applet_row list" where
  "sql_replace key d rows =
     filter (\<lambda>r. \<not> sql_eq (a_id r) key) rows
       @ [\<lparr>a_id = text_affinity key, a_lastrun = SNull, a_data = text_affinity d\<rparr>]"

definition applet_create_entry :: "string \<Rightarrow> pyval \<Rightarrow> 'v store \<Rightarrow> 'v store \<times> result" where
  "applet_create_entry applet_id data s =
     (case applets s of
        None \<Rightarrow> (log_msg ''Error while creating database entry'' s, Returned PNone)
      | Some rows \<Rightarrow>
          (log_msg ''Applet database entry created''
             (s\<lparr>applets := Some (sql_replace (SText (py_str (PStr applet_id)))
                                             (SText (py_str data)) rows)\<rparr>),
           Returned PNone))"

definition applet_load_entry ::
  "(pyval \<Rightarrow> exn + pyval) \<Rightarrow> string \<Rightarrow> 'v store \<Rightarrow> 'v store \<times> result" where
  "applet_load_entry dec applet_id s =
     (case applets s of
        None \<Rightarrow> (log_msg ''Error while loading applet database entry'' s, Returned PNone)
      | Some rows \<Rightarrow>
          (case filter (\<lambda>r. sql_eq (a_id r) (SText applet_id)) rows of
             [] \<Rightarrow> (s, Returned PNone)
           | r # _ \<Rightarrow>
               (case dec (of_sql (a_data r)) of
                  Inl e \<Rightarrow> (s, Raised e)
                | Inr applet_plans \<Rightarrow> (s, Returned applet_plans))))"

definition applet_delete_entry :: "string \<Rightarrow> 'v store \<Rightarrow> 'v store \<times> result" where
  "applet_delete_entry applet_id s =
     (case applets s of
        None \<Rightarrow> (log_msg ''Error while attempting to delete applet database entry'' s, Returned PNone)
      | Some rows \<Rightarrow>
          (log_msg ''Applet database entry deleted''
             (s\<lparr>applets := Some (filter (\<lambda>r. \<not> sql_eq (a_id r) (SText applet_id)) rows)\<rparr>),
           Returned PNone))"

definition applet_update_lastrun :: "string \<Rightarrow> pyval \<Rightarrow> 'v store \<Rightarrow> 'v store \<times> result" where
  "applet_update_lastrun applet_id data s =
     (case applets s of
        None \<Rightarrow> (log_msg ''Error while updating database entry'' s, Returned PNone)
      | Some rows \<Rightarrow>
          (log_msg ''Applet lastrun updated''
             (s\<lparr>applets := Some (map (\<lambda>r. if sql_eq (a_id r) (SText (py_str (PStr applet_id)))
                                          then r\<lparr>a_lastrun := text_affinity (SText (py_str data))\<rparr>
                                          else r) rows)\<rparr>),
           Returned PNone))"

section \<open>Notions and stores used in the statements\<close>

text \<open>An applet id has a row in the store; a store with one applet whose stored text is
  not a literal.\<close>

definition has_applet :: "string \<Rightarrow> 'v store \<Rightarrow> bool" where
  "has_applet applet_id s =
     (case applets s of
        None \<Rightarrow> False
      | Some rows \<Rightarrow> list_ex (\<lambda>r. sql_eq (a_id r) (SText applet_id)) rows)"

definition demo_store :: "vcell store" where
  "demo_store =
     \<lparr>ultrasonics = None, plugins = Some [],
      applets = Some [\<lparr>a_id = SText ''a2'', a_lastrun = SNull, a_data = SText ''{''\<rparr>],
      logs = []\<rparr>"

text \<open>Process metadata and a schema with which \<^verbatim>\<open>connect\<close> seeds the settings table to
  the end: every key and value can be bound, and the comprehension over the schema raises
  no \<^verbatim>\<open>KeyError\<close>. \<open>stored\<close> is the cell that an insert keeps for a value.\<close>

definition bindable :: "pyval \<Rightarrow> bool" where
  "bindable v = (case bind v of Bound x \<Rightarrow> True | _ \<Rightarrow> False)"

definition seedable :: "(pyval \<times> pyval) list \<Rightarrow> descriptor list \<Rightarrow> bool" where
  "seedable meta gs =
     (list_all (\<lambda>p. bindable (fst p) \<and> bindable (snd p)) meta
      \<and> (case settings_database gs of
            Inl e \<Rightarrow> False
          | Inr gsd \<Rightarrow> list_all (\<lambda>p. bindable (fst p) \<and> bindable (snd p)) gsd))"

definition stored :: "pyval \<Rightarrow> sqlval" where
  "stored v = (case bind v of Bound x \<Rightarrow> text_affinity x | _ \<Rightarrow> SNull)"

text \<open>A database file with no table yet, a metadata dict, and the two descriptors of
  \<^verbatim>\<open>global_settings\<close> whose texts are ASCII (the link and the \<^verbatim>\<open>api_url\<close> setting).\<close>

definition empty_store :: "vcell store" where
  "empty_store = \<lparr>ultrasonics = None, plugins = None, applets = None, logs = []\<rparr>"

definition demo_meta :: "(pyval \<times> pyval) list" where
  "demo_meta = [(PStr ''version'', PStr ''1.0'')]"

definition demo_settings :: "descriptor list" where
  "demo_settings =
     [[(PStr ''type'', PStr ''link''),
       (PStr ''value'', PStr ''https://github.com/XDGFX/ultrasonics-api'')],
      [(PStr ''type'', PStr ''text''),
       (PStr ''label'', PStr ''ultrasonics-api URL''),
       (PStr ''name'', PStr ''api_url''),
       (PStr ''value'', PStr ''https://ultrasonics-api.herokuapp.com/api/'')]]"

text \<open>A store whose stored texts are cut short, and one with an empty plugins table.\<close>

definition broken_store :: "vcell store" where
  "broken_store =
     \<lparr>ultrasonics = None,
      plugins = Some [\<lparr>p_id = 1, p_plugin = SText ''spotify'', p_version = VWhole 1,
                       p_settings = SText ''{'u': ''\<rparr>],
      applets = Some [\<lparr>a_id = SText ''a1'', a_lastrun = SNull, a_data = SText ''[1, 2''\<rparr>],
      logs = []\<rparr>"

definition plugins_only :: "vcell store" where
  "plugins_only = \<lparr>ultrasonics = None, plugins = Some [], applets = None, logs = []\<rparr>"

text \<open>
  The settings merge in the words of the specification: a schema in which every descriptor
  has a \<^verbatim>\<open>"type"\<close>, and has a \<^verbatim>\<open>"name"\<close> exactly when it is configurable; the stored value
  of a name (that of the last row with that key); and the descriptor that the non-raw load
  is to return for a descriptor of the schema.
\<close>

definition is_configurable :: "descriptor \<Rightarrow> bool" where
  "is_configurable item =
     (case dict_get item (PStr ''type'') of None \<Rightarrow> False | Some t \<Rightarrow> py_in t configurable_types)"

definition schema_ok :: "descriptor list \<Rightarrow> bool" where
  "schema_ok gs =
     list_all (\<lambda>item. dict_get item (PStr ''type'') \<noteq> None
                   \<and> (is_configurable item \<longleftrightarrow> dict_get item (PStr ''name'') \<noteq> None)) gs"

definition stored_value :: "(sqlval \<times> sqlval) list \<Rightarrow> pyval \<Rightarrow> pyval option" where
  "stored_value rows n =
     (let found = filter (\<lambda>r. py_eq n (of_sql (fst r))) rows
      in if found = [] then None else Some (of_sql (snd (last found))))"

definition merged :: "(sqlval \<times> sqlval) list \<Rightarrow> descriptor \<Rightarrow> descriptor" where
  "merged rows item =
     (if is_configurable item then
        (case dict_get item (PStr ''name'') of
           None \<Rightarrow> item
         | Some n \<Rightarrow>
             (case stored_value rows n of
                None \<Rightarrow> item
              | Some v \<Rightarrow> dict_set item (PStr ''value'') v))
      else item)"

definition settings_store :: "vcell store" where
  "settings_store =
     \<lparr>ultrasonics = Some [(SText ''version'', SText ''1.0''),
                          (SText ''new_install'', SText ''0''),
                          (SText ''api_url'', SText ''https://custom/'')],
      plugins = Some [], applets = Some [], logs = []\<rparr>"

text \<open>The names of the configurable descriptors, and the loop body on one descriptor.\<close>

definition config_names :: "descriptor list \<Rightarrow> pyval list" where
  "config_names gs =
     List.map_filter (\<lambda>item. if is_configurable item then dict_get item (PStr ''name'') else None) gs"

definition merge_item :: "pyval list \<Rightarrow> descriptor \<Rightarrow> sqlval \<times> sqlval \<Rightarrow> descriptor" where
  "merge_item names item row =
     (if py_in (of_sql (fst row)) names \<and> name_is item (of_sql (fst row))
      then dict_set item (PStr ''value'') (of_sql (snd row)) else item)"

text \<open>
  Auxiliary notions of the round-trip proof: a remaining text at which a number ends, the
  two quote characters, and the characters that can begin a printed value.
\<close>

definition stops :: "string \<Rightarrow> bool" where
  "stops rest = (case rest of [] \<Rightarrow> True | c # r \<Rightarrow> \<not> is_digit c)"

definition is_quote :: "char \<Rightarrow> bool" where
  "is_quote q = (q = CHR 0x27 \<or> q = CHR 0x22)"

definition opens :: "char \<Rightarrow> bool" where
  "opens c = (c \<noteq> CHR '' '' \<and> c \<noteq> CHR '']'' \<and> c \<noteq> CHR ''}'')"

text \<open>
  A value that is a str at the top; the rows of an applet id; a store with empty plugin
  and applet tables; a plan as the applets hold them.
\<close>

definition is_str :: "pyval \<Rightarrow> bool" where
  "is_str v = (case v of PStr s \<Rightarrow> True | _ \<Rightarrow> False)"

definition applet_rows :: "string \<Rightarrow> 'v store \<Rightarrow> applet_row list" where
  "applet_rows applet_id s =
     (case applets s of
        None \<Rightarrow> []
      | Some rows \<Rightarrow> filter (\<lambda>r. sql_eq (a_id r) (SText applet_id)) rows)"

definition fresh_store :: "vcell store" where
  "fresh_store = \<lparr>ultrasonics = None, plugins = Some [], applets = Some [], logs = []\<rparr>"

definition demo_plan :: pyval where
  "demo_plan =
     PList [PDict [(PStr ''plugin'', PStr ''spotify''), (PStr ''version'', PStr ''1.0''),
                   (PStr ''data'', PDict [(PStr ''it's'', PList [PNone, PBool True, PInt (- 50)])])]]"

section \<open>Verified properties\<close>

subsection \<open>Basic facts\<close>

lemma filter_nil_list_ex: "filter P xs = [] \<longleftrightarrow> \<not> list_ex P xs"
  by (induction xs) auto

lemma py_str_PStr [simp]: "py_str (PStr s) = s"
  by (simp add: py_str_def)

lemma py_eq_PNone [simp]: "py_eq PNone PNone"
  by (simp add: py_eq_def)

subsection \<open>Applets and plugins without a row\<close>

text \<open>
  Claim C8. For an applet id with no matching row, \<^verbatim>\<open>applet_load_entry\<close> returns \<^verbatim>\<open>None\<close>
  (the not-found result) and does not raise; in particular it does so after
  \<^verbatim>\<open>applet_delete_entry\<close> of that id, whatever the store held before.
\<close>

theorem applet_load_entry_missing:
  "(\<not> has_applet applet_id s \<longrightarrow> snd (applet_load_entry dec applet_id s) = Returned PNone)
   \<and> snd (applet_load_entry dec applet_id (fst (applet_delete_entry applet_id s))) = Returned PNone"
  by (auto simp: applet_load_entry_def applet_delete_entry_def has_applet_def log_msg_def
        filter_nil_list_ex list_ex_iff split: option.splits list.splits)

theorem applet_load_entry_missing_witness:
  "\<not> has_applet ''a1'' demo_store
   \<and> snd (applet_load_entry literal_eval ''a1'' demo_store) = Returned PNone
   \<and> snd (applet_load_entry literal_eval ''a2''
            (fst (applet_delete_entry ''a2'' demo_store))) = Returned PNone"
  using applet_load_entry_missing [of "''a1''" demo_store literal_eval]
    applet_load_entry_missing [of "''a2''" demo_store literal_eval]
  by (simp add: has_applet_def demo_store_def sql_eq_def)

text \<open>
  Claim C10. For an applet id with no row, \<^verbatim>\<open>applet_update_lastrun\<close> returns without
  raising and leaves the applets table (and the two other tables) as it was: no row is
  inserted. Where the table exists the only trace is the message of the successful
  path, \<^verbatim>\<open>Applet lastrun updated\<close>: no error is reported.
\<close>

theorem applet_update_lastrun_missing:
  "\<not> has_applet applet_id s \<Longrightarrow>
     snd (applet_update_lastrun applet_id data s) = Returned PNone
     \<and> applets (fst (applet_update_lastrun applet_id data s)) = applets s
     \<and> plugins (fst (applet_update_lastrun applet_id data s)) = plugins s
     \<and> ultrasonics (fst (applet_update_lastrun applet_id data s)) = ultrasonics s
     \<and> (applets s \<noteq> None \<longrightarrow>
          logs (fst (applet_update_lastrun applet_id data s)) = logs s @ [''Applet lastrun updated''])"
  by (auto simp: applet_update_lastrun_def has_applet_def log_msg_def list_ex_iff
        map_idI split: option.splits)

theorem applet_update_lastrun_missing_witness:
  "\<not> has_applet ''a1'' demo_store
   \<and> snd (applet_update_lastrun ''a1'' (PBool True) demo_store) = Returned PNone
   \<and> applets (fst (applet_update_lastrun ''a1'' (PBool True) demo_store)) = applets demo_store
   \<and> logs (fst (applet_update_lastrun ''a1'' (PBool True) demo_store)) = [''Applet lastrun updated'']"
  using applet_update_lastrun_missing [of "''a1''" demo_store "PBool True"]
  by (simp add: has_applet_def demo_store_def sql_eq_def)

text \<open>
  Claim C9. Where the plugins table exists and no row matches the name and the version,
  \<^verbatim>\<open>plugin_load_entry\<close> raises \<^verbatim>\<open>IndexError\<close> at \<^verbatim>\<open>rows[0][0]\<close>: the handler catches
  \<^verbatim>\<open>sqlite3.Error\<close> only, so the exception reaches the caller instead of a no-value result.
  The store is left as it was.
\<close>

theorem plugin_load_entry_missing:
  "plugins s = Some rows \<Longrightarrow> \<not> list_ex (plugin_match col name version) rows \<Longrightarrow>
     plugin_load_entry dec col name version s = (s, Raised IndexError)"
proof -
  assume tbl: "plugins s = Some rows" and none: "\<not> list_ex (plugin_match col name version) rows"
  from none have "filter (plugin_match col name version) rows = []"
    by (simp add: filter_nil_list_ex)
  with tbl show ?thesis
    by (simp add: plugin_load_entry_def)
qed

theorem plugin_load_entry_missing_witness:
  "plugins demo_store = Some [] \<and> \<not> list_ex (plugin_match whole_column ''spotify'' ''1.0'') []
   \<and> plugin_load_entry literal_eval whole_column ''spotify'' ''1.0'' demo_store
       = (demo_store, Raised IndexError)"
  using plugin_load_entry_missing [of demo_store "[]" whole_column "''spotify''" "''1.0''" literal_eval]
  by (simp add: demo_store_def)

subsection \<open>First installation\<close>

lemma char_of_eq_iff: "n < 256 \<Longrightarrow> char_of (n::nat) = c \<longleftrightarrow> n = of_char c"
proof -
  assume n: "n < 256"
  have "char_of n = c \<longleftrightarrow> (of_char (char_of n) :: nat) = of_char c"
    by (simp only: of_char_eq_iff)
  with n show ?thesis by simp
qed

lemma show_nat_digit: "n < 10 \<Longrightarrow> show_nat n = [digit_char n]"
  by (simp add: show_nat.simps)

lemma show_int_0 [simp]: "show_int 0 = ''0''"
  by (simp add: show_int_def show_nat_digit digit_char_def char_of_eq_iff)

lemma show_int_1 [simp]: "show_int 1 = ''1''"
  by (simp add: show_int_def show_nat_digit digit_char_def char_of_eq_iff)

lemma show_nat_hd: "\<exists>d r. d < 10 \<and> show_nat n = digit_char d # r"
proof (induction n rule: show_nat.induct)
  case (1 n)
  show ?case
  proof (cases "n < 10")
    case True
    then show ?thesis by (auto simp: show_nat_digit)
  next
    case False
    with 1 obtain d r where "d < 10" "show_nat (n div 10) = digit_char d # r" by auto
    with False show ?thesis by (subst show_nat.simps) auto
  qed
qed

lemma digit_char_neq_n: "d < 10 \<Longrightarrow> digit_char d \<noteq> CHR ''n''"
proof
  assume "d < 10" "digit_char d = CHR ''n''"
  then have "(of_char (digit_char d) :: nat) = of_char (CHR ''n'')" by simp
  with \<open>d < 10\<close> show False by (simp add: digit_char_def)
qed

lemma show_int_not_new_install: "show_int i \<noteq> ''new_install''"
proof -
  obtain d r where d: "d < 10" "show_nat (nat \<bar>i\<bar>) = digit_char d # r"
    using show_nat_hd by blast
  then have "digit_char d \<noteq> CHR ''n''" by (simp add: digit_char_neq_n)
  with d show ?thesis
    by (cases "i < 0") (auto simp: show_int_def abs_if)
qed

lemma py_eq_PStr_iff [simp]: "py_eq k (PStr n) \<longleftrightarrow> k = PStr n"
  by (cases k) (auto simp: py_eq_def)

lemma py_eq_PBool_PNone [simp]: "\<not> py_eq (PBool b) PNone"
  by (simp add: py_eq_def)

lemma insert_settings_bindable:
  "list_all (\<lambda>p. bindable (fst p) \<and> bindable (snd p)) items \<Longrightarrow>
     insert_settings items rows = (rows @ map (\<lambda>p. (stored (fst p), stored (snd p))) items, Done)"
  by (induction items arbitrary: rows)
     (auto simp: bindable_def stored_def split: bound.splits)

lemma stored_key_new_install:
  "bindable k \<Longrightarrow> sql_eq (stored k) (SText ''new_install'') \<longleftrightarrow> k = PStr ''new_install''"
  by (cases k) (auto simp: bindable_def stored_def sql_eq_def show_int_not_new_install
        split: if_splits)

lemma seeded_flag:
  "list_all (\<lambda>p. bindable (fst p) \<and> bindable (snd p)) meta \<Longrightarrow>
     \<exists>rest. filter (\<lambda>r. sql_eq (fst r) (SText ''new_install''))
              (map (\<lambda>p. (stored (fst p), stored (snd p)))
                 (dict_set meta (PStr ''new_install'') (PBool True)) @ extra)
           = (SText ''new_install'', SText ''1'') # rest"
proof (induction meta)
  case Nil
  then show ?case by (simp add: stored_def sql_eq_def)
next
  case (Cons p meta)
  obtain k v where p: "p = (k, v)" by (cases p)
  show ?case
  proof (cases "k = PStr ''new_install''")
    case True
    then show ?thesis using p by (simp add: stored_def sql_eq_def)
  next
    case False
    with Cons p show ?thesis by (simp add: stored_key_new_install)
  qed
qed

lemma create_tables_ultrasonics [simp]:
  "ultrasonics (fst (snd (create_tables meta s))) = ultrasonics s"
  by (simp add: create_tables_def Let_def log_msg_def split: option.splits list.splits)

lemma connect_seeds:
  assumes "ultrasonics s = None" and "seedable meta gs"
  shows "\<exists>rest. ultrasonics (fst (snd (connect meta gs s))) = Some rest
           \<and> (\<exists>more_rows. filter (\<lambda>r. sql_eq (fst r) (SText ''new_install'')) rest
                      = (SText ''new_install'', SText ''1'') # more_rows)"
proof -
  from assms(2) obtain gsd where gsd: "settings_database gs = Inr gsd"
    and b1: "list_all (\<lambda>p. bindable (fst p) \<and> bindable (snd p)) meta"
    and b2: "list_all (\<lambda>p. bindable (fst p) \<and> bindable (snd p)) gsd"
    by (auto simp: seedable_def split: sum.splits)
  let ?meta1 = "dict_set meta (PStr ''new_install'') (PBool True)"
  have b3: "list_all (\<lambda>p. bindable (fst p) \<and> bindable (snd p)) ?meta1"
    using b1 by (induction meta) (auto simp: bindable_def)
  let ?rows = "map (\<lambda>p. (stored (fst p), stored (snd p))) ?meta1
                 @ map (\<lambda>p. (stored (fst p), stored (snd p))) gsd"
  have "ultrasonics (fst (snd (connect meta gs s))) = Some ?rows"
    using assms(1) gsd
    by (simp add: connect_def new_install_def log_msg_def Let_def
          insert_settings_bindable [OF b3] insert_settings_bindable [OF b2])
  moreover from seeded_flag [OF b1]
  have "\<exists>more_rows. filter (\<lambda>r. sql_eq (fst r) (SText ''new_install'')) ?rows
               = (SText ''new_install'', SText ''1'') # more_rows"
    by blast
  ultimately show ?thesis by blast
qed

lemma new_install_read:
  "ultrasonics s = Some rows \<Longrightarrow>
   filter (\<lambda>r. sql_eq (fst r) (SText ''new_install'')) rows = (k, v) # more_rows \<Longrightarrow>
     snd (new_install False s) = Returned (PBool (v = SText ''1''))"
  by (cases v) (simp_all add: new_install_def py_eq_def)

lemma filter_key_map_value:
  "filter (\<lambda>r. P (fst r)) (map (\<lambda>r. if P (fst r) then (fst r, z) else r) rows)
     = map (\<lambda>r. (fst r, z)) (filter (\<lambda>r. P (fst r)) rows)"
  by (induction rows) auto

lemma new_install_update_read:
  assumes "ultrasonics s = Some rows"
    and "filter (\<lambda>r. sql_eq (fst r) (SText ''new_install'')) rows = r # more_rows"
  shows "snd (new_install False (fst (new_install True s))) = Returned (PBool False)"
proof -
  let ?P = "\<lambda>k. sql_eq k (SText ''new_install'')"
  let ?rows' = "map (\<lambda>r. if ?P (fst r) then (fst r, text_affinity (SInt 0)) else r) rows"
  have u: "ultrasonics (fst (new_install True s)) = Some ?rows'"
    using assms(1) by (simp add: new_install_def log_msg_def)
  have "filter (\<lambda>r. ?P (fst r)) ?rows' = (fst r, SText ''0'') # map (\<lambda>r. (fst r, SText ''0'')) more_rows"
    using assms(2) filter_key_map_value [of ?P "text_affinity (SInt 0)" rows]
    by (simp del: text_affinity.simps) simp
  from new_install_read [OF u this] show ?thesis by simp
qed

text \<open>
  Claim C4. While the settings table does not exist, \<^verbatim>\<open>new_install()\<close> returns \<^verbatim>\<open>None\<close> (the
  unknown sentinel, which is not \<^verbatim>\<open>False\<close>); after \<^verbatim>\<open>connect\<close> has seeded the table it returns
  \<^verbatim>\<open>True\<close>; after \<^verbatim>\<open>new_install(update=True)\<close> it returns \<^verbatim>\<open>False\<close>. The seeding is assumed
  to run to its end (\<open>seedable\<close>).
\<close>

theorem new_install_transition:
  assumes "ultrasonics s = None" and "seedable meta gs"
  shows "snd (new_install False s) = Returned PNone
   \<and> snd (new_install False (fst (snd (connect meta gs s)))) = Returned (PBool True)
   \<and> snd (new_install False (fst (new_install True (fst (snd (connect meta gs s))))))
       = Returned (PBool False)"
proof -
  from connect_seeds [OF assms] obtain rest more_rows where
    u: "ultrasonics (fst (snd (connect meta gs s))) = Some rest"
    and f: "filter (\<lambda>r. sql_eq (fst r) (SText ''new_install'')) rest
              = (SText ''new_install'', SText ''1'') # more_rows"
    by blast
  have "snd (new_install False s) = Returned PNone"
    using assms(1) by (simp add: new_install_def)
  moreover from new_install_read [OF u f]
  have "snd (new_install False (fst (snd (connect meta gs s)))) = Returned (PBool True)"
    by simp
  moreover note new_install_update_read [OF u f]
  ultimately show ?thesis by blast
qed

lemma seedable_demo: "seedable demo_meta demo_settings"
  by (simp add: seedable_def demo_meta_def demo_settings_def bindable_def py_in_def
        configurable_types_def py_eq_def)

theorem new_install_transition_witness:
  "ultrasonics empty_store = None \<and> seedable demo_meta demo_settings
   \<and> snd (new_install False empty_store) = Returned PNone
   \<and> snd (new_install False (fst (snd (connect demo_meta demo_settings empty_store))))
       = Returned (PBool True)
   \<and> snd (new_install False
            (fst (new_install True (fst (snd (connect demo_meta demo_settings empty_store))))))
       = Returned (PBool False)"
  using new_install_transition [of empty_store demo_meta demo_settings] seedable_demo
  by (simp add: empty_store_def)

subsection \<open>Initialising twice\<close>

lemma connect_existing:
  "ultrasonics s = Some rows \<Longrightarrow> ultrasonics (fst (snd (connect meta gs s))) = Some rows"
  by (simp add: connect_def new_install_def log_msg_def Let_def split: list.splits)

lemma connect_absent:
  "ultrasonics s = None \<Longrightarrow>
     (\<exists>rows. ultrasonics (fst (snd (connect meta gs s))) = Some rows)
     \<or> ((\<exists>e. settings_database gs = Inl e) \<and> ultrasonics (fst (snd (connect meta gs s))) = None)"
  by (simp add: connect_def new_install_def log_msg_def Let_def
        split: sum.splits prod.splits exec.splits)

lemma connect_fails_again:
  "ultrasonics s = None \<Longrightarrow> settings_database gs = Inl e \<Longrightarrow>
     ultrasonics (fst (snd (connect meta gs s))) = None"
  by (simp add: connect_def new_install_def log_msg_def Let_def)

text \<open>
  Claim C5. A second call of \<^verbatim>\<open>connect\<close> leaves the rows of the settings table exactly as the
  first call left them, whatever the store was before the first call and whatever the
  metadata dict holds at the second call (the first call has added \<^verbatim>\<open>new_install\<close> to it).
\<close>

theorem connect_idempotent:
  "ultrasonics (fst (snd (connect meta2 gs (fst (snd (connect meta gs s))))))
     = ultrasonics (fst (snd (connect meta gs s)))"
proof (cases "ultrasonics s")
  case (Some rows)
  then show ?thesis by (simp add: connect_existing)
next
  case None
  from connect_absent [OF None, of meta gs] show ?thesis
  proof
    assume "\<exists>rows. ultrasonics (fst (snd (connect meta gs s))) = Some rows"
    then show ?thesis by (auto simp: connect_existing)
  next
    assume "(\<exists>e. settings_database gs = Inl e) \<and> ultrasonics (fst (snd (connect meta gs s))) = None"
    then show ?thesis by (auto simp: connect_fails_again)
  qed
qed

theorem connect_idempotent_witness:
  "ultrasonics (fst (snd (connect demo_meta demo_settings
       (fst (snd (connect demo_meta demo_settings empty_store))))))
     = ultrasonics (fst (snd (connect demo_meta demo_settings empty_store)))"
  using connect_idempotent [of demo_meta demo_settings demo_meta empty_store]
  by simp

subsection \<open>Versions of a plugin\<close>

lemma sql_eq_SText [simp]: "sql_eq (SText a) (SText b) \<longleftrightarrow> a = b"
  by (simp add: sql_eq_def)

lemma digit_char_simps:
  "digit_char 0 = CHR ''0''" "digit_char (Suc 0) = CHR ''1''" "digit_char 2 = CHR ''2''"
  by (simp_all add: digit_char_def char_of_eq_iff)

text \<open>
  Claim C7, as the code has it. After \<^verbatim>\<open>plugin_create_entry(name, v1)\<close> and
  \<^verbatim>\<open>plugin_create_entry(name, v2)\<close>, \<^verbatim>\<open>plugin_entry_exists(name)\<close> returns one string per
  stored row of that name, in the order of insertion, the last two being those of the two
  new rows. Each string is \<^verbatim>\<open>str()\<close> of the cell that the \<^verbatim>\<open>FLOAT\<close> column kept, which is the
  text given only when the column and \<^verbatim>\<open>str()\<close> give it back. For a name without a row the
  result is \<^verbatim>\<open>[False]\<close>.
\<close>

theorem plugin_entry_exists_versions:
  "plugins s = Some rows \<Longrightarrow>
     snd (plugin_entry_exists col name
            (fst (plugin_create_entry col (PStr name) (PStr v2)
               (fst (plugin_create_entry col (PStr name) (PStr v1) s)))))
       = Returned (PList
           (map (\<lambda>r. PStr (str_real col (p_version r)))
              (filter (\<lambda>r. sql_eq (p_plugin r) (SText name)) rows)
            @ [PStr (str_real col (store_real col (SText v1))),
               PStr (str_real col (store_real col (SText v2)))]))
     \<and> (\<not> list_ex (\<lambda>r. sql_eq (p_plugin r) (SText name)) rows \<longrightarrow>
          snd (plugin_entry_exists col name s) = Returned (PList [PBool False]))"
  by (simp add: plugin_entry_exists_def plugin_create_entry_def log_msg_def Let_def
        filter_nil_list_ex)

theorem plugin_entry_exists_versions_witness:
  "plugins plugins_only = Some []
   \<and> snd (plugin_entry_exists whole_column ''spotify''
            (fst (plugin_create_entry whole_column (PStr ''spotify'') (PStr ''2'')
               (fst (plugin_create_entry whole_column (PStr ''spotify'') (PStr ''1'') plugins_only)))))
       = Returned (PList [PStr ''1.0'', PStr ''2.0''])
   \<and> snd (plugin_entry_exists whole_column ''missing'' plugins_only) = Returned (PList [PBool False])"
  using plugin_entry_exists_versions [of plugins_only "[]" whole_column "''spotify''" "''2''" "''1''"]
    plugin_entry_exists_versions [of plugins_only "[]" whole_column "''missing''" "''2''" "''1''"]
  by (simp add: plugins_only_def whole_column_def whole_literal_def is_digit_def read_nat_def
        digit_val_def show_int_def show_nat_digit digit_char_simps)

text \<open>
  The versions \<^verbatim>\<open>"1"\<close> and \<^verbatim>\<open>"2"\<close> are integer literals: the column keeps the floats 1.0 and
  2.0, and the strings returned are \<^verbatim>\<open>"1.0"\<close> and \<^verbatim>\<open>"2.0"\<close>, not the strings given.
\<close>

theorem plugin_entry_exists_versions_counterexample:
  "snd (plugin_entry_exists whole_column ''spotify''
          (fst (plugin_create_entry whole_column (PStr ''spotify'') (PStr ''2'')
             (fst (plugin_create_entry whole_column (PStr ''spotify'') (PStr ''1'') plugins_only)))))
     = Returned (PList [PStr ''1.0'', PStr ''2.0''])
   \<and> PStr ''1'' \<notin> set [PStr ''1.0'', PStr ''2.0'']"
  by (simp add: plugin_entry_exists_def plugin_create_entry_def log_msg_def Let_def
        plugins_only_def whole_column_def whole_literal_def is_digit_def read_nat_def
        digit_val_def show_int_def show_nat_digit digit_char_simps next_id_def)

subsection \<open>Stored texts that do not decode\<close>

lemma py_eq_of_sql_PNone [simp]: "py_eq (of_sql v) PNone \<longleftrightarrow> v = SNull"
  by (cases v) (simp_all add: py_eq_def)

text \<open>
  Claim C3, as the code has it. When the decoder fails on the stored text of the row that
  \<^verbatim>\<open>applet_load_entry\<close> or \<^verbatim>\<open>plugin_load_entry\<close> reads, the exception of the decoder is
  raised to the caller: the handler catches \<^verbatim>\<open>sqlite3.Error\<close> only. Nothing is logged and
  the store is unchanged. This holds for every decoder \<open>dec\<close>.
\<close>

theorem decode_error_propagates:
  "(applets s = Some rows \<longrightarrow>
      filter (\<lambda>r. sql_eq (a_id r) (SText applet_id)) rows = r # rest \<longrightarrow>
      dec (of_sql (a_data r)) = Inl e \<longrightarrow>
        applet_load_entry dec applet_id s = (s, Raised e))
   \<and> (plugins s = Some prows \<longrightarrow>
      filter (plugin_match col name version) prows = p # prest \<longrightarrow>
      p_settings p \<noteq> SNull \<longrightarrow>
      dec (of_sql (p_settings p)) = Inl e \<longrightarrow>
        plugin_load_entry dec col name version s = (s, Raised e))"
  by (simp add: applet_load_entry_def plugin_load_entry_def Let_def)

lemma literal_eval_broken:
  "literal_eval (PStr ''[1, 2'') = Inl LiteralError"
  "literal_eval (PStr ''{'u': '') = Inl LiteralError"
  by code_simp+

theorem decode_error_propagates_witness:
  "applet_load_entry literal_eval ''a1'' broken_store = (broken_store, Raised LiteralError)
   \<and> plugin_load_entry literal_eval whole_column ''spotify'' ''1'' broken_store
       = (broken_store, Raised LiteralError)"
  using decode_error_propagates [of broken_store
      "[\<lparr>a_id = SText ''a1'', a_lastrun = SNull, a_data = SText ''[1, 2''\<rparr>]" "''a1''"
      "\<lparr>a_id = SText ''a1'', a_lastrun = SNull, a_data = SText ''[1, 2''\<rparr>" "[]"
      literal_eval LiteralError
      "[\<lparr>p_id = 1, p_plugin = SText ''spotify'', p_version = VWhole 1, p_settings = SText ''{'u': ''\<rparr>]"
      whole_column "''spotify''" "''1''"
      "\<lparr>p_id = 1, p_plugin = SText ''spotify'', p_version = VWhole 1, p_settings = SText ''{'u': ''\<rparr>" "[]"]
    literal_eval_broken
  by (simp add: broken_store_def plugin_match_def whole_column_def eq_whole_def whole_literal_def
        is_digit_def read_nat_def digit_val_def)

text \<open>
  The stored text \<^verbatim>\<open>{\<close> is not a literal: \<^verbatim>\<open>applet_load_entry\<close> raises and logs nothing,
  where the claim has a logged error and a no-value result.
\<close>

theorem malformed_record_counterexample:
  "snd (applet_load_entry literal_eval ''a2'' demo_store) = Raised LiteralError
   \<and> logs (fst (applet_load_entry literal_eval ''a2'' demo_store)) = logs demo_store"
proof -
  have "literal_eval (PStr ''{'') = Inl LiteralError" by code_simp
  then show ?thesis
    by (simp add: applet_load_entry_def demo_store_def)
qed

subsection \<open>Loading the global settings\<close>

lemma dict_set_twice: "dict_set (dict_set d k a) k b = dict_set d k b"
  by (induction d) (auto simp: py_eq_def split: option.splits)

lemma dict_get_set_other:
  "a \<noteq> b \<Longrightarrow> dict_get (dict_set d (PStr a) v) (PStr b) = dict_get d (PStr b)"
  by (induction d) auto

lemma dict_set_fresh:
  "list_all (\<lambda>p. \<not> py_eq (fst p) k) d \<Longrightarrow> dict_set d k v = d @ [(k, v)]"
  by (induction d) auto

lemma py_eq_of_sql [simp]: "py_eq (of_sql a) (of_sql b) \<longleftrightarrow> a = b"
  by (cases a; cases b) (simp_all add: py_eq_def)

lemma raw_fold:
  "distinct (map fst rows) \<Longrightarrow> list_all (\<lambda>p. \<forall>r \<in> set rows. \<not> py_eq (fst p) (of_sql (fst r))) acc \<Longrightarrow>
     foldl (\<lambda>d r. dict_set d (of_sql (fst r)) (of_sql (snd r))) acc rows
       = acc @ map (\<lambda>r. (of_sql (fst r), of_sql (snd r))) rows"
proof (induction rows arbitrary: acc)
  case Nil
  then show ?case by simp
next
  case (Cons r rows)
  have fresh: "list_all (\<lambda>p. \<not> py_eq (fst p) (of_sql (fst r))) acc"
    using Cons.prems(2) by (simp add: list_all_iff)
  have "list_all (\<lambda>p. \<forall>r' \<in> set rows. \<not> py_eq (fst p) (of_sql (fst r')))
          (acc @ [(of_sql (fst r), of_sql (snd r))])"
    using Cons.prems by (auto simp: list_all_iff)
  with Cons.IH [of "acc @ [(of_sql (fst r), of_sql (snd r))]"] Cons.prems(1) fresh
  show ?case by (simp add: dict_set_fresh)
qed

lemma db_compatible_settings_ok:
  "schema_ok gs \<Longrightarrow> db_compatible_settings gs = Inr (config_names gs)"
  by (induction gs)
     (auto simp: schema_ok_def config_names_def is_configurable_def List.map_filter_simps)

lemma merge_row_map: "merge_row names data row = map (\<lambda>item. merge_item names item row) data"
  by (simp add: merge_row_def merge_item_def)

lemma merge_rows_map:
  "foldl (merge_row names) data rows = map (\<lambda>item. foldl (merge_item names) item rows) data"
  by (induction rows arbitrary: data) (simp_all add: merge_row_map comp_def)

lemma merge_item_display:
  "dict_get item (PStr ''name'') = None \<Longrightarrow> foldl (merge_item names) item rows = item"
  by (induction rows) (simp_all add: merge_item_def name_is_def)

lemma merge_item_configurable:
  assumes "dict_get item (PStr ''name'') = Some n" and "n \<in> set names"
  shows "foldl (merge_item names) item rows
           = (case stored_value rows n of None \<Rightarrow> item
              | Some v \<Rightarrow> dict_set item (PStr ''value'') v)"
proof (induction rows rule: rev_induct)
  case Nil
  then show ?case by (simp add: stored_value_def)
next
  case (snoc row rows)
  let ?cur = "foldl (merge_item names) item rows"
  have name: "dict_get ?cur (PStr ''name'') = Some n"
    using snoc assms(1) by (auto simp: dict_get_set_other split: option.splits)
  show ?case
  proof (cases "py_eq n (of_sql (fst row))")
    case True
    then have "py_in (of_sql (fst row)) names"
      using assms(2) by (auto simp: py_in_def)
    with True name have "merge_item names ?cur row = dict_set ?cur (PStr ''value'') (of_sql (snd row))"
      by (simp add: merge_item_def name_is_def)
    moreover have "dict_set ?cur (PStr ''value'') (of_sql (snd row))
                     = dict_set item (PStr ''value'') (of_sql (snd row))"
      using snoc by (simp add: dict_set_twice split: option.splits)
    moreover have "stored_value (rows @ [row]) n = Some (of_sql (snd row))"
      using True by (simp add: stored_value_def)
    ultimately show ?thesis by simp
  next
    case False
    with name have "merge_item names ?cur row = ?cur"
      by (simp add: merge_item_def name_is_def)
    moreover have "stored_value (rows @ [row]) n = stored_value rows n"
      using False by (simp add: stored_value_def)
    ultimately show ?thesis using snoc by simp
  qed
qed

lemma config_names_mem:
  "item \<in> set gs \<Longrightarrow> is_configurable item \<Longrightarrow> dict_get item (PStr ''name'') = Some n \<Longrightarrow>
     n \<in> set (config_names gs)"
  by (induction gs) (auto simp: config_names_def List.map_filter_simps split: option.splits)

lemma merge_item_merged:
  assumes "schema_ok gs" and "item \<in> set gs"
  shows "foldl (merge_item (config_names gs)) item rows = merged rows item"
proof (cases "is_configurable item")
  case True
  with assms obtain n where n: "dict_get item (PStr ''name'') = Some n"
    by (auto simp: schema_ok_def list_all_iff)
  from config_names_mem [OF assms(2) True n] merge_item_configurable [OF n] True n
  show ?thesis by (simp add: merged_def)
next
  case False
  with assms have "dict_get item (PStr ''name'') = None"
    by (auto simp: schema_ok_def list_all_iff)
  with False show ?thesis by (simp add: merge_item_display merged_def)
qed

text \<open>
  Claim C6. Where the settings table exists, with any rows, \<^verbatim>\<open>global_settings_load()\<close>
  returns the schema, descriptor by descriptor: a configurable descriptor whose name has
  a stored row carries the stored value (\<open>merged\<close>), every other descriptor is as in the
  schema, and no stored key adds a descriptor. \<^verbatim>\<open>global_settings_load(raw=True)\<close> returns the
  stored keys and values as they are, in the order of the rows (the keys of the table
  being unique).
\<close>

theorem global_settings_load_merge:
  assumes "ultrasonics s = Some rows" and "schema_ok gs"
  shows "global_settings_load False gs s = (s, Returned (PList (map (\<lambda>item. PDict (merged rows item)) gs)))
   \<and> (distinct (map fst rows) \<longrightarrow>
        global_settings_load True gs s
          = (s, Returned (PDict (map (\<lambda>r. (of_sql (fst r), of_sql (snd r))) rows))))"
proof -
  have "map PDict (foldl (merge_row (config_names gs)) gs rows)
          = map (\<lambda>item. PDict (merged rows item)) gs"
    using merge_item_merged [OF assms(2)] by (simp add: merge_rows_map)
  then have "global_settings_load False gs s
               = (s, Returned (PList (map (\<lambda>item. PDict (merged rows item)) gs)))"
    using assms by (simp add: global_settings_load_def db_compatible_settings_ok)
  moreover have "distinct (map fst rows) \<longrightarrow>
        global_settings_load True gs s
          = (s, Returned (PDict (map (\<lambda>r. (of_sql (fst r), of_sql (snd r))) rows)))"
    using assms(1) raw_fold [of rows "[]"] by (simp add: global_settings_load_def)
  ultimately show ?thesis by blast
qed

lemma schema_ok_demo: "schema_ok demo_settings"
  by (simp add: schema_ok_def demo_settings_def is_configurable_def py_in_def
        configurable_types_def)

theorem global_settings_load_merge_witness:
  "ultrasonics settings_store
     = Some [(SText ''version'', SText ''1.0''), (SText ''new_install'', SText ''0''),
             (SText ''api_url'', SText ''https://custom/'')]
   \<and> schema_ok demo_settings
   \<and> global_settings_load False demo_settings settings_store
       = (settings_store, Returned (PList
           [PDict [(PStr ''type'', PStr ''link''),
                   (PStr ''value'', PStr ''https://github.com/XDGFX/ultrasonics-api'')],
            PDict [(PStr ''type'', PStr ''text''),
                   (PStr ''label'', PStr ''ultrasonics-api URL''),
                   (PStr ''name'', PStr ''api_url''),
                   (PStr ''value'', PStr ''https://custom/'')]]))
   \<and> global_settings_load True demo_settings settings_store
       = (settings_store, Returned (PDict
           [(PStr ''version'', PStr ''1.0''), (PStr ''new_install'', PStr ''0''),
            (PStr ''api_url'', PStr ''https://custom/'')]))"
  using global_settings_load_merge [of settings_store
      "[(SText ''version'', SText ''1.0''), (SText ''new_install'', SText ''0''),
        (SText ''api_url'', SText ''https://custom/'')]" demo_settings]
    schema_ok_demo
  by (simp add: settings_store_def demo_settings_def merged_def is_configurable_def py_in_def
        configurable_types_def stored_value_def)

subsection \<open>The codec: decimal numbers\<close>

lemma show_nat_step: "\<not> n < 10 \<Longrightarrow> show_nat n = show_nat (n div 10) @ [digit_char (n mod 10)]"
  by (subst show_nat.simps) simp

lemma of_char_digit_char: "d < 10 \<Longrightarrow> (of_char (digit_char d) :: nat) = 48 + d"
  by (simp add: digit_char_def)

lemma is_digit_digit_char: "d < 10 \<Longrightarrow> is_digit (digit_char d)"
  by (simp add: is_digit_def of_char_digit_char)

lemma digit_val_digit_char: "d < 10 \<Longrightarrow> digit_val (digit_char d) = d"
  by (simp add: digit_val_def of_char_digit_char)

lemma show_nat_digits: "list_all is_digit (show_nat n)"
  by (induction n rule: show_nat.induct)
     (subst show_nat.simps, simp add: is_digit_digit_char)

lemma show_nat_not_Nil: "show_nat n \<noteq> []"
  by (subst show_nat.simps) simp

lemma read_nat_snoc: "read_nat (ds @ [c]) = 10 * read_nat ds + digit_val c"
  by (simp add: read_nat_def)

lemma read_nat_show_nat: "read_nat (show_nat n) = n"
proof (induction n rule: show_nat.induct)
  case (1 n)
  show ?case
  proof (cases "n < 10")
    case True
    then show ?thesis by (simp add: show_nat_digit read_nat_def digit_val_digit_char)
  next
    case False
    with 1 show ?thesis
      by (simp add: show_nat_step read_nat_snoc digit_val_digit_char)
  qed
qed

lemma digit_char_zero_iff: "d < 10 \<Longrightarrow> digit_char d = CHR ''0'' \<longleftrightarrow> d = 0"
  by (auto simp: digit_char_def char_of_eq_iff)

lemma show_nat_hd_zero: "0 < n \<Longrightarrow> hd (show_nat n) \<noteq> CHR ''0''"
proof (induction n rule: show_nat.induct)
  case (1 n)
  show ?case
  proof (cases "n < 10")
    case True
    with 1(2) show ?thesis by (simp add: show_nat_digit digit_char_zero_iff)
  next
    case False
    then have "0 < n div 10" by simp
    with 1 False show ?thesis
      by (simp add: show_nat_step show_nat_not_Nil)
  qed
qed

lemma show_nat_length: "1 < length (show_nat n) \<Longrightarrow> 0 < n"
  by (cases "n < 10") (auto simp: show_nat_digit)

lemma takeWhile_stops: "stops rest \<Longrightarrow> takeWhile is_digit rest = []"
  by (cases rest) (simp_all add: stops_def)

lemma dropWhile_stops: "stops rest \<Longrightarrow> dropWhile is_digit rest = rest"
  by (cases rest) (simp_all add: stops_def)

lemma parse_nat_show_nat:
  assumes "stops rest"
  shows "parse_nat (show_nat n @ rest) = Some (n, rest)"
proof -
  have all: "\<forall>c \<in> set (show_nat n). is_digit c"
    using show_nat_digits [of n] by (simp add: list_all_iff)
  have t: "takeWhile is_digit (show_nat n @ rest) = show_nat n"
    using all assms by (simp add: takeWhile_append2 takeWhile_stops)
  have d: "dropWhile is_digit (show_nat n @ rest) = rest"
    using all assms by (simp add: dropWhile_append2 dropWhile_stops)
  have "\<not> (1 < length (show_nat n) \<and> hd (show_nat n) = CHR ''0'')"
    using show_nat_length [of n] show_nat_hd_zero [of n] by blast
  then show ?thesis
    by (auto simp: parse_nat_def t d show_nat_not_Nil read_nat_show_nat)
qed

subsection \<open>The codec: strings\<close>

lemma hex_val_hex_char: "d < 16 \<Longrightarrow> hex_val (hex_char d) = Some d"
  by (auto simp: hex_val_def hex_char_def Let_def)

lemma of_char_div_16: "(of_char (c::char) :: nat) div 16 < 16"
proof -
  have "(of_char c :: nat) < 256" by simp
  then show ?thesis by presburger
qed

lemma char_of_div_mod: "char_of (16 * ((of_char c :: nat) div 16) + of_char c mod 16) = c"
  by simp

lemma quote_of_is_quote: "is_quote (quote_of s)"
  by (simp add: quote_of_def is_quote_def)

lemma parse_str_body_end: "parse_str_body q (q # rest) = Some ([], rest)"
  by (cases rest) simp_all

lemma parse_str_body_esc:
  assumes "is_quote q"
  shows "parse_str_body q (esc_char q c @ a # t)
           = (case parse_str_body q (a # t) of None \<Rightarrow> None | Some (u, r) \<Rightarrow> Some (c # u, r))"
proof -
  from assms have q: "q = CHR 0x27 \<or> q = CHR 0x22" by (simp add: is_quote_def)
  consider (quote) "c = q" | (bs) "c \<noteq> q" "c = CHR 0x5C" | (tab) "c = CHR 0x09"
    | (nl) "c = CHR 0x0A" | (cr) "c = CHR 0x0D"
    | (plain) "c \<noteq> q" "c \<noteq> CHR 0x5C" "c \<noteq> CHR 0x09" "c \<noteq> CHR 0x0A" "c \<noteq> CHR 0x0D" "printable c"
    | (hex) "c \<noteq> q" "c \<noteq> CHR 0x5C" "c \<noteq> CHR 0x09" "c \<noteq> CHR 0x0A" "c \<noteq> CHR 0x0D" "\<not> printable c"
    by blast
  then show ?thesis
  proof cases
    case quote
    with q show ?thesis by (auto simp: esc_char_def unescape_def)
  next
    case bs
    with q show ?thesis by (auto simp: esc_char_def unescape_def)
  next
    case tab
    with q show ?thesis by (auto simp: esc_char_def unescape_def)
  next
    case nl
    with q show ?thesis by (auto simp: esc_char_def unescape_def)
  next
    case cr
    with q show ?thesis by (auto simp: esc_char_def unescape_def)
  next
    case plain
    then show ?thesis by (simp add: esc_char_def)
  next
    case hex
    let ?hi = "(of_char c :: nat) div 16" and ?lo = "(of_char c :: nat) mod 16"
    have e: "esc_char q c = [CHR 0x5C, CHR ''x'', hex_char ?hi, hex_char ?lo]"
      using hex by (simp add: esc_char_def)
    have h1: "hex_val (hex_char ?hi) = Some ?hi"
      by (rule hex_val_hex_char) (rule of_char_div_16)
    have h2: "hex_val (hex_char ?lo) = Some ?lo"
      by (rule hex_val_hex_char) simp
    have whole: "char_of (16 * ?hi + ?lo) = c"
      by simp
    have bsq: "CHR 0x5C \<noteq> q"
      using q by auto
    show ?thesis
      unfolding e using bsq by (simp add: h1 h2 whole split: option.splits)
  qed
qed

lemma parse_str_body_esc':
  assumes "is_quote q" and "t \<noteq> []"
  shows "parse_str_body q (esc_char q c @ t)
           = (case parse_str_body q t of None \<Rightarrow> None | Some (u, r) \<Rightarrow> Some (c # u, r))"
proof -
  from assms(2) obtain a t' where "t = a # t'" by (cases t) auto
  with parse_str_body_esc [OF assms(1), of c a t'] show ?thesis by simp
qed

lemma parse_str_body_repr:
  "is_quote q \<Longrightarrow>
     parse_str_body q (concat (map (esc_char q) s) @ q # rest) = Some (s, rest)"
  by (induction s) (simp_all add: parse_str_body_end parse_str_body_esc')

subsection \<open>The codec: values\<close>

lemma digit_char_opens: "d < 10 \<Longrightarrow> opens (digit_char d)"
proof -
  assume d: "d < 10"
  have "digit_char d \<noteq> c" if "(of_char c :: nat) < 48 \<or> 57 < (of_char c :: nat)" for c
  proof
    assume "digit_char d = c"
    then have "(of_char (digit_char d) :: nat) = of_char c" by simp
    with d that show False by (simp add: of_char_digit_char)
  qed
  then show ?thesis by (simp add: opens_def)
qed

lemma show_nat_head: "\<exists>c r. show_nat n = c # r \<and> is_digit c \<and> opens c"
proof -
  obtain c r where cr: "show_nat n = c # r"
    using show_nat_not_Nil [of n] by (cases "show_nat n") auto
  with show_nat_digits [of n] have dg: "is_digit c" by simp
  then have "c = digit_char (of_char c - 48)" "of_char c - 48 < (10::nat)"
    by (auto simp: is_digit_def digit_char_def)
  with digit_char_opens have "opens c" by metis
  with cr dg show ?thesis by blast
qed

lemma py_repr_head: "\<exists>c r. py_repr v = c # r \<and> opens c"
proof (cases v)
  case (PInt i)
  obtain c r where "show_nat (nat \<bar>i\<bar>) = c # r" "opens c"
    using show_nat_head by blast
  then show ?thesis using PInt
    by (cases "i < 0") (auto simp: show_int_def opens_def abs_if)
next
  case (PStr s)
  then show ?thesis
    by (auto simp: repr_str_def quote_of_def opens_def Let_def)
qed (auto simp: opens_def)

lemma skip_ws_opens: "opens c \<Longrightarrow> skip_ws (c # r) = c # r"
  by (simp add: opens_def)

lemma parse_value_blank: "parse_value n (CHR '' '' # s) = parse_value n s"
  by (cases n) simp_all

lemma parse_items_blank: "parse_items n (CHR '' '' # s) = parse_items n s"
  by (cases n) (simp_all add: parse_value_blank)

lemma parse_pairs_blank: "parse_pairs n (CHR '' '' # s) = parse_pairs n s"
  by (cases n) (simp_all add: parse_value_blank)

lemma wf_pairs_keys: "wf_pairs ps \<Longrightarrow> list_all (\<lambda>p. hashable (fst p)) ps"
  by (induction ps) auto

lemma build_dict_wf_aux:
  "wf_pairs ps \<Longrightarrow> list_all (\<lambda>a. list_all (\<lambda>p. \<not> py_eq (fst a) (fst p)) ps) acc \<Longrightarrow>
     foldl (\<lambda>d (k, v). dict_set d k v) acc ps = acc @ ps"
proof (induction ps arbitrary: acc)
  case Nil
  then show ?case by simp
next
  case (Cons p ps)
  obtain k v where p: "p = (k, v)" by (cases p)
  have fresh: "list_all (\<lambda>a. \<not> py_eq (fst a) k) acc"
    using Cons.prems(2) p by (simp add: list_all_iff)
  have "list_all (\<lambda>a. list_all (\<lambda>q. \<not> py_eq (fst a) (fst q)) ps) (acc @ [(k, v)])"
    using Cons.prems p by (auto simp: list_all_iff)
  with Cons.IH [of "acc @ [(k, v)]"] Cons.prems(1) p fresh
  show ?case by (simp add: dict_set_fresh)
qed

lemma build_dict_wf: "wf_pairs ps \<Longrightarrow> build_dict ps = ps"
  using build_dict_wf_aux [of ps "[]"] by (simp add: build_dict_def)

lemma hashable_wf: "hashable k \<Longrightarrow> wf_val k"
  by (cases k) simp_all

lemma parse_value_keyword:
  "parse_value (Suc n) (''None'' @ rest) = Some (PNone, rest)"
  "parse_value (Suc n) (''True'' @ rest) = Some (PBool True, rest)"
  "parse_value (Suc n) (''False'' @ rest) = Some (PBool False, rest)"
  by (simp_all add: parse_keyword_def is_digit_def)

lemma is_digit_not_special:
  "is_digit c \<Longrightarrow> c \<noteq> CHR ''['' \<and> c \<noteq> CHR ''{'' \<and> c \<noteq> CHR 0x27 \<and> c \<noteq> CHR 0x22 \<and> c \<noteq> CHR ''-''"
  by (auto simp: is_digit_def)

lemma parse_value_int:
  assumes "stops rest"
  shows "parse_value (Suc n) (show_int i @ rest) = Some (PInt i, rest)"
proof (cases "i < 0")
  case True
  then show ?thesis
    using parse_nat_show_nat [OF assms, of "nat (- i)"] by (simp add: show_int_def)
next
  case False
  obtain c r where cr: "show_nat (nat i) = c # r" and dg: "is_digit c" and op: "opens c"
    using show_nat_head by blast
  have "parse_nat (c # r @ rest) = Some (nat i, rest)"
    using parse_nat_show_nat [OF assms, of "nat i"] cr by simp
  with False cr dg op is_digit_not_special [OF dg] show ?thesis
    by (simp add: show_int_def opens_def)
qed

lemma parse_value_str:
  "parse_value (Suc n) (repr_str s @ rest) = Some (PStr s, rest)"
proof -
  let ?q = "quote_of s"
  have q: "is_quote ?q" by (rule quote_of_is_quote)
  have "parse_str_body ?q (concat (map (esc_char ?q) s) @ ?q # rest) = Some (s, rest)"
    by (rule parse_str_body_repr [OF q])
  moreover have "?q \<noteq> CHR '' ''" "?q \<noteq> CHR ''[''" "?q \<noteq> CHR ''{''" "?q = CHR 0x27 \<or> ?q = CHR 0x22"
    using q by (auto simp: is_quote_def)
  ultimately show ?thesis
    by (simp add: repr_str_def Let_def)
qed

lemma stops_simps [simp]:
  "stops (CHR '']'' # r)" "stops (CHR ''}'' # r)" "stops (CHR '','' # r)" "stops (CHR '':'' # r)"
  "stops []"
  by (simp_all add: stops_def is_digit_def)

lemma repr_items_head: "xs \<noteq> [] \<Longrightarrow> \<exists>c r. repr_items xs = c # r \<and> opens c"
proof (cases xs)
  case Nil
  then show "xs \<noteq> [] \<Longrightarrow> ?thesis" by simp
next
  case (Cons x ys)
  obtain c r where "py_repr x = c # r" "opens c" using py_repr_head by blast
  with Cons show ?thesis by (cases ys) auto
qed

lemma repr_pairs_head: "ps \<noteq> [] \<Longrightarrow> \<exists>c r. repr_pairs ps = c # r \<and> opens c"
proof (cases ps)
  case Nil
  then show "ps \<noteq> [] \<Longrightarrow> ?thesis" by simp
next
  case (Cons p qs)
  obtain k v where p: "p = (k, v)" by (cases p)
  obtain c r where "py_repr k = c # r" "opens c" using py_repr_head by blast
  with Cons p show ?thesis by (cases qs) auto
qed

lemma parse_value_list:
  assumes "xs \<noteq> []"
    and "parse_items n (repr_items xs @ CHR '']'' # rest) = Some (xs, rest)"
  shows "parse_value (Suc n) (CHR ''['' # repr_items xs @ CHR '']'' # rest) = Some (PList xs, rest)"
proof -
  obtain c r where "repr_items xs = c # r" "opens c"
    using repr_items_head [OF assms(1)] by blast
  with assms(2) show ?thesis by (simp add: opens_def)
qed

lemma parse_value_dict:
  assumes "ps \<noteq> []" and "wf_pairs ps"
    and "parse_pairs n (repr_pairs ps @ CHR ''}'' # rest) = Some (ps, rest)"
  shows "parse_value (Suc n) (CHR ''{'' # repr_pairs ps @ CHR ''}'' # rest) = Some (PDict ps, rest)"
proof -
  obtain c r where "repr_pairs ps = c # r" "opens c"
    using repr_pairs_head [OF assms(1)] by blast
  with assms(3) wf_pairs_keys [OF assms(2)] build_dict_wf [OF assms(2)] show ?thesis
    by (simp add: opens_def)
qed

lemma parse_items_last:
  assumes "parse_value n (py_repr x @ CHR '']'' # rest) = Some (x, CHR '']'' # rest)"
  shows "parse_items (Suc n) (py_repr x @ CHR '']'' # rest) = Some ([x], rest)"
  using assms by simp

lemma parse_items_more:
  assumes "parse_value n (py_repr x @ CHR '','' # CHR '' '' # repr_items (y # ys) @ CHR '']'' # rest)
             = Some (x, CHR '','' # CHR '' '' # repr_items (y # ys) @ CHR '']'' # rest)"
    and "parse_items n (repr_items (y # ys) @ CHR '']'' # rest) = Some (y # ys, rest)"
  shows "parse_items (Suc n) (py_repr x @ CHR '','' # CHR '' '' # repr_items (y # ys) @ CHR '']'' # rest)
           = Some (x # y # ys, rest)"
proof -
  obtain c r where "repr_items (y # ys) = c # r" "opens c"
    using repr_items_head [of "y # ys"] by blast
  with assms show ?thesis
    by (simp add: opens_def parse_items_blank del: repr_items.simps)
qed

lemma parse_pairs_last:
  assumes "parse_value n (py_repr k @ CHR '':'' # CHR '' '' # py_repr v @ CHR ''}'' # rest)
             = Some (k, CHR '':'' # CHR '' '' # py_repr v @ CHR ''}'' # rest)"
    and "parse_value n (py_repr v @ CHR ''}'' # rest) = Some (v, CHR ''}'' # rest)"
  shows "parse_pairs (Suc n) (py_repr k @ CHR '':'' # CHR '' '' # py_repr v @ CHR ''}'' # rest)
           = Some ([(k, v)], rest)"
  using assms by (simp add: parse_value_blank)

lemma parse_pairs_more:
  assumes "parse_value n (py_repr k @ CHR '':'' # CHR '' '' # py_repr v @ CHR '','' # CHR '' ''
                            # repr_pairs (p # ps) @ CHR ''}'' # rest)
             = Some (k, CHR '':'' # CHR '' '' # py_repr v @ CHR '','' # CHR '' ''
                            # repr_pairs (p # ps) @ CHR ''}'' # rest)"
    and "parse_value n (py_repr v @ CHR '','' # CHR '' '' # repr_pairs (p # ps) @ CHR ''}'' # rest)
           = Some (v, CHR '','' # CHR '' '' # repr_pairs (p # ps) @ CHR ''}'' # rest)"
    and "parse_pairs n (repr_pairs (p # ps) @ CHR ''}'' # rest) = Some (p # ps, rest)"
  shows "parse_pairs (Suc n) (py_repr k @ CHR '':'' # CHR '' '' # py_repr v @ CHR '','' # CHR '' ''
                            # repr_pairs (p # ps) @ CHR ''}'' # rest)
           = Some ((k, v) # p # ps, rest)"
proof -
  obtain c r where "repr_pairs (p # ps) = c # r" "opens c"
    using repr_pairs_head [of "p # ps"] by blast
  with assms show ?thesis
    by (simp add: opens_def parse_value_blank parse_pairs_blank del: repr_pairs.simps)
qed

lemma py_repr_length: "0 < length (py_repr v)"
  using py_repr_head [of v] by auto

declare parse_value.simps [simp del] parse_items.simps [simp del] parse_pairs.simps [simp del]

lemma parse_value_empty:
  "parse_value (Suc n) (CHR ''['' # CHR '']'' # rest) = Some (PList [], rest)"
  "parse_value (Suc n) (CHR ''{'' # CHR ''}'' # rest) = Some (PDict [], rest)"
  by (simp_all add: parse_value.simps)

lemma parse_repr:
  "wf_val v \<Longrightarrow> stops rest \<Longrightarrow> length (py_repr v) \<le> n \<Longrightarrow>
     parse_value n (py_repr v @ rest) = Some (v, rest)"
  "wf_items xs \<Longrightarrow> xs \<noteq> [] \<Longrightarrow> length (repr_items xs) < n \<Longrightarrow>
     parse_items n (repr_items xs @ CHR '']'' # rest) = Some (xs, rest)"
  "wf_pairs ps \<Longrightarrow> ps \<noteq> [] \<Longrightarrow> length (repr_pairs ps) < n \<Longrightarrow>
     parse_pairs n (repr_pairs ps @ CHR ''}'' # rest) = Some (ps, rest)"
proof (induction v and xs and ps arbitrary: n rest and n rest and n rest
       rule: py_repr_repr_items_repr_pairs.induct)
  case 1
  then obtain m where "n = Suc m" by (cases n) auto
  then show ?case using parse_value_keyword(1) by simp
next
  case (2 b)
  then obtain m where "n = Suc m" by (cases n) (auto split: if_splits)
  then show ?case using parse_value_keyword(2,3) by simp
next
  case (3 i)
  then obtain m where "n = Suc m" using py_repr_length [of "PInt i"] by (cases n) auto
  with 3 show ?case by (simp add: parse_value_int)
next
  case (4 s)
  then obtain m where "n = Suc m" using py_repr_length [of "PStr s"] by (cases n) auto
  then show ?case by (simp add: parse_value_str)
next
  case (5 xs)
  from 5(4) obtain m where n: "n = Suc m" by (cases n) auto
  show ?case
  proof (cases "xs = []")
    case True
    with n show ?thesis by (simp add: parse_value_empty)
  next
    case False
    from 5(2) have "wf_items xs" by simp
    moreover from 5(4) n have "length (repr_items xs) < m" by simp
    ultimately have "parse_items m (repr_items xs @ CHR '']'' # rest) = Some (xs, rest)"
      using False 5(1) by blast
    from parse_value_list [OF False this] n show ?thesis by simp
  qed
next
  case (6 kvs)
  from 6(4) obtain m where n: "n = Suc m" by (cases n) auto
  show ?case
  proof (cases "kvs = []")
    case True
    with n show ?thesis by (simp add: parse_value_empty)
  next
    case False
    from 6(2) have wf: "wf_pairs kvs" by simp
    moreover from 6(4) n have "length (repr_pairs kvs) < m" by simp
    ultimately have "parse_pairs m (repr_pairs kvs @ CHR ''}'' # rest) = Some (kvs, rest)"
      using False 6(1) by blast
    from parse_value_dict [OF False wf this] n show ?thesis by simp
  qed
next
  case 7
  then show ?case by simp
next
  case (8 x)
  from 8(4) obtain m where n: "n = Suc m" by (cases n) auto
  have "parse_value m (py_repr x @ CHR '']'' # rest) = Some (x, CHR '']'' # rest)"
    using 8 n by (intro 8(1)) simp_all
  from parse_items_last [OF this] n show ?case by simp
next
  case (9 x y ys)
  from 9(5) obtain m where n: "n = Suc m" by (cases n) auto
  let ?tail = "CHR '','' # CHR '' '' # repr_items (y # ys) @ CHR '']'' # rest"
  have a: "parse_value m (py_repr x @ ?tail) = Some (x, ?tail)"
    using 9(3,5) n by (intro 9(1)) simp_all
  have b: "parse_items m (repr_items (y # ys) @ CHR '']'' # rest) = Some (y # ys, rest)"
    using 9(3,5) n by (intro 9(2)) simp_all
  from parse_items_more [OF a b] n show ?case by simp
next
  case 10
  then show ?case by simp
next
  case (11 k v)
  from 11(5) obtain m where n: "n = Suc m" by (cases n) auto
  let ?tail = "CHR '':'' # CHR '' '' # py_repr v @ CHR ''}'' # rest"
  have a: "parse_value m (py_repr k @ ?tail) = Some (k, ?tail)"
    using 11(3,5) n by (intro 11(1)) (simp_all add: hashable_wf)
  have b: "parse_value m (py_repr v @ CHR ''}'' # rest) = Some (v, CHR ''}'' # rest)"
    using 11(3,5) n by (intro 11(2)) simp_all
  from parse_pairs_last [OF a b] n show ?case by simp
next
  case (12 k v p ps)
  from 12(6) obtain m where n: "n = Suc m" by (cases n) auto
  let ?more = "CHR '','' # CHR '' '' # repr_pairs (p # ps) @ CHR ''}'' # rest"
  let ?tail = "CHR '':'' # CHR '' '' # py_repr v @ ?more"
  have a: "parse_value m (py_repr k @ ?tail) = Some (k, ?tail)"
    using 12(4,6) n by (intro 12(1)) (simp_all add: hashable_wf)
  have b: "parse_value m (py_repr v @ ?more) = Some (v, ?more)"
    using 12(4,6) n by (intro 12(2)) simp_all
  have c: "parse_pairs m (repr_pairs (p # ps) @ CHR ''}'' # rest) = Some (p # ps, rest)"
    using 12(4,6) n by (intro 12(3)) simp_all
  from parse_pairs_more [OF a b c] n show ?case by simp
qed

lemma literal_eval_repr: "wf_val v \<Longrightarrow> literal_eval (PStr (py_repr v)) = Inr v"
  using parse_repr(1) [of v "[]" "Suc (length (py_repr v))"] by simp

subsection \<open>The codec: round trip\<close>

lemma py_str_repr: "\<not> is_str v \<Longrightarrow> py_str v = py_repr v"
  by (cases v) (simp_all add: py_str_def is_str_def)

lemma literal_eval_py_str:
  "wf_val v \<Longrightarrow> \<not> is_str v \<Longrightarrow> literal_eval (PStr (py_str v)) = Inr v"
  using literal_eval_repr [of v] by (simp add: py_str_repr del: literal_eval.simps)

text \<open>
  Claim C2, as the code has it. For every value that is not a str at the top
  (\<^verbatim>\<open>None\<close>, a bool, an int, a list, a dict, nested at will, with strs anywhere inside),
  decoding with \<^verbatim>\<open>ast.literal_eval\<close> what \<^verbatim>\<open>str()\<close> wrote yields the value. \<open>wf_val\<close>
  is what every Python value satisfies: the keys of a dict are hashable and different.
\<close>

theorem codec_round_trip:
  "wf_val v \<Longrightarrow> \<not> is_str v \<Longrightarrow> literal_eval (PStr (py_str v)) = Inr v"
  by (rule literal_eval_py_str)

lemma demo_plan_ok: "wf_val demo_plan \<and> \<not> is_str demo_plan"
  by (simp add: demo_plan_def is_str_def py_eq_def)

theorem codec_round_trip_witness:
  "wf_val demo_plan \<and> \<not> is_str demo_plan
   \<and> literal_eval (PStr (py_str demo_plan)) = Inr demo_plan"
  using codec_round_trip [of demo_plan] demo_plan_ok by simp

text \<open>
  \<^verbatim>\<open>str()\<close> of a str is the str without quotes: the str \<^verbatim>\<open>"1"\<close> is read back as the
  integer 1, and for the str \<^verbatim>\<open>"abc"\<close> the decoder raises.
\<close>

theorem codec_round_trip_counterexample:
  "literal_eval (PStr (py_str (PStr ''1''))) = Inr (PInt 1)
   \<and> literal_eval (PStr (py_str (PStr ''1''))) \<noteq> Inr (PStr ''1'')
   \<and> literal_eval (PStr (py_str (PStr ''abc''))) = Inl LiteralError"
proof -
  have a: "literal_eval (PStr ''1'') = Inr (PInt 1)" by code_simp
  have b: "literal_eval (PStr ''abc'') = Inl LiteralError" by code_simp
  from a b show ?thesis by simp
qed

subsection \<open>Writing a plan again\<close>

lemma sql_replace_rows:
  "filter (\<lambda>r. sql_eq (a_id r) (SText k)) (sql_replace (SText k) d rows)
     = [\<lparr>a_id = SText k, a_lastrun = SNull, a_data = text_affinity d\<rparr>]"
  by (auto simp: sql_replace_def sql_eq_def filter_empty_conv)

text \<open>
  Claim C1, as the code has it. After \<^verbatim>\<open>applet_create_entry(id, planA)\<close>,
  \<^verbatim>\<open>applet_update_lastrun(id, outcomeX)\<close> and \<^verbatim>\<open>applet_create_entry(id, planB)\<close>, loading
  the plan of \<open>id\<close> returns \<open>planB\<close> (which is not a str at the top), and the table holds
  one row for \<open>id\<close>, whose \<^verbatim>\<open>lastrun\<close> is \<^verbatim>\<open>NULL\<close>: \<^verbatim>\<open>REPLACE\<close> has replaced the whole
  row, and \<open>outcomeX\<close> is gone.
\<close>

theorem applet_replace_resets_lastrun:
  assumes "applets s = Some rows" and "wf_val planB" and "\<not> is_str planB"
  shows "snd (applet_load_entry literal_eval applet_id
            (fst (applet_create_entry applet_id planB
               (fst (applet_update_lastrun applet_id outcomeX
                  (fst (applet_create_entry applet_id planA s))))))) = Returned planB
   \<and> applet_rows applet_id
         (fst (applet_create_entry applet_id planB
            (fst (applet_update_lastrun applet_id outcomeX
               (fst (applet_create_entry applet_id planA s))))))
       = [\<lparr>a_id = SText applet_id, a_lastrun = SNull, a_data = SText (py_str planB)\<rparr>]"
  using assms(1) literal_eval_py_str [OF assms(2,3)]
  by (simp add: applet_load_entry_def applet_create_entry_def applet_update_lastrun_def
        applet_rows_def log_msg_def sql_replace_rows)

theorem applet_replace_resets_lastrun_witness:
  "applets demo_store = Some [\<lparr>a_id = SText ''a2'', a_lastrun = SNull, a_data = SText ''{''\<rparr>]
   \<and> wf_val demo_plan \<and> \<not> is_str demo_plan
   \<and> snd (applet_load_entry literal_eval ''a1''
            (fst (applet_create_entry ''a1'' demo_plan
               (fst (applet_update_lastrun ''a1'' (PBool True)
                  (fst (applet_create_entry ''a1'' (PList []) demo_store))))))) = Returned demo_plan
   \<and> applet_rows ''a1''
         (fst (applet_create_entry ''a1'' demo_plan
            (fst (applet_update_lastrun ''a1'' (PBool True)
               (fst (applet_create_entry ''a1'' (PList []) demo_store))))))
       = [\<lparr>a_id = SText ''a1'', a_lastrun = SNull, a_data = SText (py_str demo_plan)\<rparr>]"
  using applet_replace_resets_lastrun [of demo_store
      "[\<lparr>a_id = SText ''a2'', a_lastrun = SNull, a_data = SText ''{''\<rparr>]" demo_plan
      "''a1''" "PBool True" "PList []"] demo_plan_ok
  by (simp add: demo_store_def)

text \<open>
  On empty tables: after the first two calls the row of \<^verbatim>\<open>a1\<close> holds the outcome
  \<^verbatim>\<open>True\<close>; after the plan is written again its \<^verbatim>\<open>lastrun\<close> is \<^verbatim>\<open>NULL\<close>.
\<close>

theorem applet_upsert_counterexample:
  "applets (fst (applet_update_lastrun ''a1'' (PBool True)
             (fst (applet_create_entry ''a1'' (PList [PInt 1]) fresh_store))))
     = Some [\<lparr>a_id = SText ''a1'', a_lastrun = SText ''True'', a_data = SText ''[1]''\<rparr>]
   \<and> applets (fst (applet_create_entry ''a1'' (PList [PInt 2])
             (fst (applet_update_lastrun ''a1'' (PBool True)
                (fst (applet_create_entry ''a1'' (PList [PInt 1]) fresh_store))))))
     = Some [\<lparr>a_id = SText ''a1'', a_lastrun = SNull, a_data = SText ''[2]''\<rparr>]"
proof -
  have "py_str (PList [PInt 1]) = ''[1]''" "py_str (PList [PInt 2]) = ''[2]''"
    "py_str (PBool True) = ''True''"
    by code_simp+
  then show ?thesis
    by (simp add: applet_create_entry_def applet_update_lastrun_def fresh_store_def
          log_msg_def sql_replace_def sql_eq_def)
qed

end
